theory Spec2Isabelle
  imports Main
begin

section \<open>Package token\<close>

text \<open>
  \<^verbatim>\<open>type Type int\<close> with its constants numbered by \<^verbatim>\<open>iota\<close>, in the order of
  \<^verbatim>\<open>token/token.go\<close>. The markers \<^verbatim>\<open>keyword_beg\<close> and \<^verbatim>\<open>keyword_end\<close> take part in
  the numbering, as in the source.
\<close>

type_synonym Type = int

named_theorems tok_defs

definition ILLEGAL :: Type where [tok_defs]: "ILLEGAL = 0"
definition EOF :: Type where [tok_defs]: "EOF = 1"
definition NEWLINE :: Type where [tok_defs]: "NEWLINE = 2"
definition IGNORED_NEWLINE :: Type where [tok_defs]: "IGNORED_NEWLINE = 3"
definition COMMENT :: Type where [tok_defs]: "COMMENT = 4"
definition EMBDOC_BEGIN :: Type where [tok_defs]: "EMBDOC_BEGIN = 5"
definition EMBDOC_LINE :: Type where [tok_defs]: "EMBDOC_LINE = 6"
definition EMBDOC_END :: Type where [tok_defs]: "EMBDOC_END = 7"
definition END_MARKER :: Type where [tok_defs]: "END_MARKER = 8"
definition IDENT :: Type where [tok_defs]: "IDENT = 9"
definition CONSTANT :: Type where [tok_defs]: "CONSTANT = 10"
definition IVAR :: Type where [tok_defs]: "IVAR = 11"
definition CVAR :: Type where [tok_defs]: "CVAR = 12"
definition GVAR :: Type where [tok_defs]: "GVAR = 13"
definition NTH_REF :: Type where [tok_defs]: "NTH_REF = 14"
definition BACK_REF :: Type where [tok_defs]: "BACK_REF = 15"
definition LABEL :: Type where [tok_defs]: "LABEL = 16"
definition METHOD_NAME :: Type where [tok_defs]: "METHOD_NAME = 17"
definition INTEGER :: Type where [tok_defs]: "INTEGER = 18"
definition FLOAT :: Type where [tok_defs]: "FLOAT = 19"
definition RATIONAL :: Type where [tok_defs]: "RATIONAL = 20"
definition IMAGINARY :: Type where [tok_defs]: "IMAGINARY = 21"
definition CHAR_LIT :: Type where [tok_defs]: "CHAR_LIT = 22"
definition keyword_beg :: Type where [tok_defs]: "keyword_beg = 23"
definition KEYWORD_ENCODING :: Type where [tok_defs]: "KEYWORD_ENCODING = 24"
definition KEYWORD_FILE :: Type where [tok_defs]: "KEYWORD_FILE = 25"
definition KEYWORD_LINE :: Type where [tok_defs]: "KEYWORD_LINE = 26"
definition KEYWORD_ALIAS :: Type where [tok_defs]: "KEYWORD_ALIAS = 27"
definition KEYWORD_AND :: Type where [tok_defs]: "KEYWORD_AND = 28"
definition KEYWORD_BEGIN :: Type where [tok_defs]: "KEYWORD_BEGIN = 29"
definition KEYWORD_BEGIN_UPCASE :: Type where [tok_defs]: "KEYWORD_BEGIN_UPCASE = 30"
definition KEYWORD_BREAK :: Type where [tok_defs]: "KEYWORD_BREAK = 31"
definition KEYWORD_CASE :: Type where [tok_defs]: "KEYWORD_CASE = 32"
definition KEYWORD_CLASS :: Type where [tok_defs]: "KEYWORD_CLASS = 33"
definition KEYWORD_DEF :: Type where [tok_defs]: "KEYWORD_DEF = 34"
definition KEYWORD_DEFINED :: Type where [tok_defs]: "KEYWORD_DEFINED = 35"
definition KEYWORD_DO :: Type where [tok_defs]: "KEYWORD_DO = 36"
definition KEYWORD_DO_BLOCK :: Type where [tok_defs]: "KEYWORD_DO_BLOCK = 37"
definition KEYWORD_DO_COND :: Type where [tok_defs]: "KEYWORD_DO_COND = 38"
definition KEYWORD_DO_LAMBDA :: Type where [tok_defs]: "KEYWORD_DO_LAMBDA = 39"
definition KEYWORD_ELSE :: Type where [tok_defs]: "KEYWORD_ELSE = 40"
definition KEYWORD_ELSIF :: Type where [tok_defs]: "KEYWORD_ELSIF = 41"
definition KEYWORD_END :: Type where [tok_defs]: "KEYWORD_END = 42"
definition KEYWORD_END_UPCASE :: Type where [tok_defs]: "KEYWORD_END_UPCASE = 43"
definition KEYWORD_ENSURE :: Type where [tok_defs]: "KEYWORD_ENSURE = 44"
definition KEYWORD_FALSE :: Type where [tok_defs]: "KEYWORD_FALSE = 45"
definition KEYWORD_FOR :: Type where [tok_defs]: "KEYWORD_FOR = 46"
definition KEYWORD_IF :: Type where [tok_defs]: "KEYWORD_IF = 47"
definition KEYWORD_IF_MODIFIER :: Type where [tok_defs]: "KEYWORD_IF_MODIFIER = 48"
definition KEYWORD_IN :: Type where [tok_defs]: "KEYWORD_IN = 49"
definition KEYWORD_MODULE :: Type where [tok_defs]: "KEYWORD_MODULE = 50"
definition KEYWORD_NEXT :: Type where [tok_defs]: "KEYWORD_NEXT = 51"
definition KEYWORD_NIL :: Type where [tok_defs]: "KEYWORD_NIL = 52"
definition KEYWORD_NOT :: Type where [tok_defs]: "KEYWORD_NOT = 53"
definition KEYWORD_OR :: Type where [tok_defs]: "KEYWORD_OR = 54"
definition KEYWORD_REDO :: Type where [tok_defs]: "KEYWORD_REDO = 55"
definition KEYWORD_RESCUE :: Type where [tok_defs]: "KEYWORD_RESCUE = 56"
definition KEYWORD_RESCUE_MODIFIER :: Type where [tok_defs]: "KEYWORD_RESCUE_MODIFIER = 57"
definition KEYWORD_RETRY :: Type where [tok_defs]: "KEYWORD_RETRY = 58"
definition KEYWORD_RETURN :: Type where [tok_defs]: "KEYWORD_RETURN = 59"
definition KEYWORD_SELF :: Type where [tok_defs]: "KEYWORD_SELF = 60"
definition KEYWORD_SUPER :: Type where [tok_defs]: "KEYWORD_SUPER = 61"
definition KEYWORD_THEN :: Type where [tok_defs]: "KEYWORD_THEN = 62"
definition KEYWORD_TRUE :: Type where [tok_defs]: "KEYWORD_TRUE = 63"
definition KEYWORD_UNDEF :: Type where [tok_defs]: "KEYWORD_UNDEF = 64"
definition KEYWORD_UNLESS :: Type where [tok_defs]: "KEYWORD_UNLESS = 65"
definition KEYWORD_UNLESS_MODIFIER :: Type where [tok_defs]: "KEYWORD_UNLESS_MODIFIER = 66"
definition KEYWORD_UNTIL :: Type where [tok_defs]: "KEYWORD_UNTIL = 67"
definition KEYWORD_UNTIL_MODIFIER :: Type where [tok_defs]: "KEYWORD_UNTIL_MODIFIER = 68"
definition KEYWORD_WHEN :: Type where [tok_defs]: "KEYWORD_WHEN = 69"
definition KEYWORD_WHILE :: Type where [tok_defs]: "KEYWORD_WHILE = 70"
definition KEYWORD_WHILE_MODIFIER :: Type where [tok_defs]: "KEYWORD_WHILE_MODIFIER = 71"
definition KEYWORD_YIELD :: Type where [tok_defs]: "KEYWORD_YIELD = 72"
definition keyword_end :: Type where [tok_defs]: "keyword_end = 73"
definition AMPERSAND :: Type where [tok_defs]: "AMPERSAND = 74"
definition AMPERSAND_AMPERSAND :: Type where [tok_defs]: "AMPERSAND_AMPERSAND = 75"
definition AMPERSAND_AMPERSAND_EQUAL :: Type where [tok_defs]: "AMPERSAND_AMPERSAND_EQUAL = 76"
definition AMPERSAND_DOT :: Type where [tok_defs]: "AMPERSAND_DOT = 77"
definition AMPERSAND_EQUAL :: Type where [tok_defs]: "AMPERSAND_EQUAL = 78"
definition BANG :: Type where [tok_defs]: "BANG = 79"
definition BANG_EQUAL :: Type where [tok_defs]: "BANG_EQUAL = 80"
definition BANG_TILDE :: Type where [tok_defs]: "BANG_TILDE = 81"
definition CARET :: Type where [tok_defs]: "CARET = 82"
definition CARET_EQUAL :: Type where [tok_defs]: "CARET_EQUAL = 83"
definition COLON :: Type where [tok_defs]: "COLON = 84"
definition COLON_COLON :: Type where [tok_defs]: "COLON_COLON = 85"
definition COMMA :: Type where [tok_defs]: "COMMA = 86"
definition DOT :: Type where [tok_defs]: "DOT = 87"
definition DOT_DOT :: Type where [tok_defs]: "DOT_DOT = 88"
definition DOT_DOT_DOT :: Type where [tok_defs]: "DOT_DOT_DOT = 89"
definition EQUAL :: Type where [tok_defs]: "EQUAL = 90"
definition EQUAL_EQUAL :: Type where [tok_defs]: "EQUAL_EQUAL = 91"
definition EQUAL_EQUAL_EQUAL :: Type where [tok_defs]: "EQUAL_EQUAL_EQUAL = 92"
definition EQUAL_GREATER :: Type where [tok_defs]: "EQUAL_GREATER = 93"
definition EQUAL_TILDE :: Type where [tok_defs]: "EQUAL_TILDE = 94"
definition GREATER :: Type where [tok_defs]: "GREATER = 95"
definition GREATER_EQUAL :: Type where [tok_defs]: "GREATER_EQUAL = 96"
definition GREATER_GREATER :: Type where [tok_defs]: "GREATER_GREATER = 97"
definition GREATER_GREATER_EQUAL :: Type where [tok_defs]: "GREATER_GREATER_EQUAL = 98"
definition LESS :: Type where [tok_defs]: "LESS = 99"
definition LESS_EQUAL :: Type where [tok_defs]: "LESS_EQUAL = 100"
definition LESS_EQUAL_GREATER :: Type where [tok_defs]: "LESS_EQUAL_GREATER = 101"
definition LESS_LESS :: Type where [tok_defs]: "LESS_LESS = 102"
definition LESS_LESS_EQUAL :: Type where [tok_defs]: "LESS_LESS_EQUAL = 103"
definition MINUS :: Type where [tok_defs]: "MINUS = 104"
definition MINUS_EQUAL :: Type where [tok_defs]: "MINUS_EQUAL = 105"
definition MINUS_GREATER :: Type where [tok_defs]: "MINUS_GREATER = 106"
definition PERCENT :: Type where [tok_defs]: "PERCENT = 107"
definition PERCENT_EQUAL :: Type where [tok_defs]: "PERCENT_EQUAL = 108"
definition PIPE :: Type where [tok_defs]: "PIPE = 109"
definition PIPE_EQUAL :: Type where [tok_defs]: "PIPE_EQUAL = 110"
definition PIPE_PIPE :: Type where [tok_defs]: "PIPE_PIPE = 111"
definition PIPE_PIPE_EQUAL :: Type where [tok_defs]: "PIPE_PIPE_EQUAL = 112"
definition PLUS :: Type where [tok_defs]: "PLUS = 113"
definition PLUS_EQUAL :: Type where [tok_defs]: "PLUS_EQUAL = 114"
definition QUESTION :: Type where [tok_defs]: "QUESTION = 115"
definition SEMICOLON :: Type where [tok_defs]: "SEMICOLON = 116"
definition SLASH :: Type where [tok_defs]: "SLASH = 117"
definition SLASH_EQUAL :: Type where [tok_defs]: "SLASH_EQUAL = 118"
definition STAR :: Type where [tok_defs]: "STAR = 119"
definition STAR_EQUAL :: Type where [tok_defs]: "STAR_EQUAL = 120"
definition STAR_STAR :: Type where [tok_defs]: "STAR_STAR = 121"
definition STAR_STAR_EQUAL :: Type where [tok_defs]: "STAR_STAR_EQUAL = 122"
definition TILDE :: Type where [tok_defs]: "TILDE = 123"
definition BACKSLASH :: Type where [tok_defs]: "BACKSLASH = 124"
definition UPLUS :: Type where [tok_defs]: "UPLUS = 125"
definition UMINUS :: Type where [tok_defs]: "UMINUS = 126"
definition USTAR :: Type where [tok_defs]: "USTAR = 127"
definition USTAR_STAR :: Type where [tok_defs]: "USTAR_STAR = 128"
definition UAMPERSAND :: Type where [tok_defs]: "UAMPERSAND = 129"
definition UCOLON_COLON :: Type where [tok_defs]: "UCOLON_COLON = 130"
definition LPAREN :: Type where [tok_defs]: "LPAREN = 131"
definition LPAREN_ARG :: Type where [tok_defs]: "LPAREN_ARG = 132"
definition LPAREN_BEG :: Type where [tok_defs]: "LPAREN_BEG = 133"
definition RPAREN :: Type where [tok_defs]: "RPAREN = 134"
definition LBRACKET :: Type where [tok_defs]: "LBRACKET = 135"
definition LBRACKET_ARRAY :: Type where [tok_defs]: "LBRACKET_ARRAY = 136"
definition RBRACKET :: Type where [tok_defs]: "RBRACKET = 137"
definition LBRACE :: Type where [tok_defs]: "LBRACE = 138"
definition LBRACE_ARG :: Type where [tok_defs]: "LBRACE_ARG = 139"
definition LBRACE_BLOCK :: Type where [tok_defs]: "LBRACE_BLOCK = 140"
definition RBRACE :: Type where [tok_defs]: "RBRACE = 141"
definition BRACKET_LEFT_RIGHT :: Type where [tok_defs]: "BRACKET_LEFT_RIGHT = 142"
definition BRACKET_LEFT_RIGHT_EQUAL :: Type where [tok_defs]: "BRACKET_LEFT_RIGHT_EQUAL = 143"
definition STRING_BEGIN :: Type where [tok_defs]: "STRING_BEGIN = 144"
definition STRING_CONTENT :: Type where [tok_defs]: "STRING_CONTENT = 145"
definition STRING_END :: Type where [tok_defs]: "STRING_END = 146"
definition XSTRING_BEGIN :: Type where [tok_defs]: "XSTRING_BEGIN = 147"
definition SYMBOL_BEGIN :: Type where [tok_defs]: "SYMBOL_BEGIN = 148"
definition REGEXP_BEGIN :: Type where [tok_defs]: "REGEXP_BEGIN = 149"
definition REGEXP_END :: Type where [tok_defs]: "REGEXP_END = 150"
definition WORDS_BEGIN :: Type where [tok_defs]: "WORDS_BEGIN = 151"
definition WORDS_SEP :: Type where [tok_defs]: "WORDS_SEP = 152"
definition SYMBOLS_BEGIN :: Type where [tok_defs]: "SYMBOLS_BEGIN = 153"
definition HEREDOC_BEGIN :: Type where [tok_defs]: "HEREDOC_BEGIN = 154"
definition HEREDOC_END :: Type where [tok_defs]: "HEREDOC_END = 155"
definition EMBEXPR_BEGIN :: Type where [tok_defs]: "EMBEXPR_BEGIN = 156"
definition EMBEXPR_END :: Type where [tok_defs]: "EMBEXPR_END = 157"
definition EMBVAR :: Type where [tok_defs]: "EMBVAR = 158"
definition LAMBDA_BEGIN :: Type where [tok_defs]: "LAMBDA_BEGIN = 159"
definition LAMBDA_LBRACE :: Type where [tok_defs]: "LAMBDA_LBRACE = 160"
definition BDOT2 :: Type where [tok_defs]: "BDOT2 = 161"
definition BDOT3 :: Type where [tok_defs]: "BDOT3 = 162"
definition MISSING :: Type where [tok_defs]: "MISSING = 163"

text \<open>The map \<^verbatim>\<open>tokenNames\<close>, as the list of its entries; \<^verbatim>\<open>Type.String\<close> looks a kind up.\<close>

definition tokenNames :: "(Type \<times> string) list" where
  "tokenNames = [
    (ILLEGAL, ''ILLEGAL''),
    (EOF, ''EOF''),
    (NEWLINE, ''NEWLINE''),
    (IGNORED_NEWLINE, ''IGNORED_NEWLINE''),
    (COMMENT, ''COMMENT''),
    (EMBDOC_BEGIN, ''EMBDOC_BEGIN''),
    (EMBDOC_LINE, ''EMBDOC_LINE''),
    (EMBDOC_END, ''EMBDOC_END''),
    (END_MARKER, ''__END__''),
    (IDENT, ''IDENT''),
    (CONSTANT, ''CONSTANT''),
    (IVAR, ''IVAR''),
    (CVAR, ''CVAR''),
    (GVAR, ''GVAR''),
    (NTH_REF, ''NTH_REF''),
    (BACK_REF, ''BACK_REF''),
    (LABEL, ''LABEL''),
    (METHOD_NAME, ''METHOD_NAME''),
    (INTEGER, ''INTEGER''),
    (FLOAT, ''FLOAT''),
    (RATIONAL, ''RATIONAL''),
    (IMAGINARY, ''IMAGINARY''),
    (CHAR_LIT, ''CHAR''),
    (KEYWORD_ENCODING, ''__ENCODING__''),
    (KEYWORD_FILE, ''__FILE__''),
    (KEYWORD_LINE, ''__LINE__''),
    (KEYWORD_ALIAS, ''alias''),
    (KEYWORD_AND, ''and''),
    (KEYWORD_BEGIN, ''begin''),
    (KEYWORD_BEGIN_UPCASE, ''BEGIN''),
    (KEYWORD_BREAK, ''break''),
    (KEYWORD_CASE, ''case''),
    (KEYWORD_CLASS, ''class''),
    (KEYWORD_DEF, ''def''),
    (KEYWORD_DEFINED, ''defined?''),
    (KEYWORD_DO, ''do''),
    (KEYWORD_DO_BLOCK, ''do''),
    (KEYWORD_DO_COND, ''do''),
    (KEYWORD_DO_LAMBDA, ''do''),
    (KEYWORD_ELSE, ''else''),
    (KEYWORD_ELSIF, ''elsif''),
    (KEYWORD_END, ''end''),
    (KEYWORD_END_UPCASE, ''END''),
    (KEYWORD_ENSURE, ''ensure''),
    (KEYWORD_FALSE, ''false''),
    (KEYWORD_FOR, ''for''),
    (KEYWORD_IF, ''if''),
    (KEYWORD_IF_MODIFIER, ''if''),
    (KEYWORD_IN, ''in''),
    (KEYWORD_MODULE, ''module''),
    (KEYWORD_NEXT, ''next''),
    (KEYWORD_NIL, ''nil''),
    (KEYWORD_NOT, ''not''),
    (KEYWORD_OR, ''or''),
    (KEYWORD_REDO, ''redo''),
    (KEYWORD_RESCUE, ''rescue''),
    (KEYWORD_RESCUE_MODIFIER, ''rescue''),
    (KEYWORD_RETRY, ''retry''),
    (KEYWORD_RETURN, ''return''),
    (KEYWORD_SELF, ''self''),
    (KEYWORD_SUPER, ''super''),
    (KEYWORD_THEN, ''then''),
    (KEYWORD_TRUE, ''true''),
    (KEYWORD_UNDEF, ''undef''),
    (KEYWORD_UNLESS, ''unless''),
    (KEYWORD_UNLESS_MODIFIER, ''unless''),
    (KEYWORD_UNTIL, ''until''),
    (KEYWORD_UNTIL_MODIFIER, ''until''),
    (KEYWORD_WHEN, ''when''),
    (KEYWORD_WHILE, ''while''),
    (KEYWORD_WHILE_MODIFIER, ''while''),
    (KEYWORD_YIELD, ''yield''),
    (AMPERSAND, ''&''),
    (AMPERSAND_AMPERSAND, ''&&''),
    (AMPERSAND_AMPERSAND_EQUAL, ''&&=''),
    (AMPERSAND_DOT, ''&.''),
    (AMPERSAND_EQUAL, ''&=''),
    (BANG, ''!''),
    (BANG_EQUAL, ''!=''),
    (BANG_TILDE, ''!~''),
    (CARET, ''^''),
    (CARET_EQUAL, ''^=''),
    (COLON, '':''),
    (COLON_COLON, ''::''),
    (COMMA, '',''),
    (DOT, ''.''),
    (DOT_DOT, ''..''),
    (DOT_DOT_DOT, ''...''),
    (EQUAL, ''=''),
    (EQUAL_EQUAL, ''==''),
    (EQUAL_EQUAL_EQUAL, ''===''),
    (EQUAL_GREATER, ''=>''),
    (EQUAL_TILDE, ''=~''),
    (GREATER, ''>''),
    (GREATER_EQUAL, ''>=''),
    (GREATER_GREATER, ''>>''),
    (GREATER_GREATER_EQUAL, ''>>=''),
    (LESS, ''<''),
    (LESS_EQUAL, ''<=''),
    (LESS_EQUAL_GREATER, ''<=>''),
    (LESS_LESS, ''<<''),
    (LESS_LESS_EQUAL, ''<<=''),
    (MINUS, ''-''),
    (MINUS_EQUAL, ''-=''),
    (MINUS_GREATER, ''->''),
    (PERCENT, ''%''),
    (PERCENT_EQUAL, ''%=''),
    (PIPE, ''|''),
    (PIPE_EQUAL, ''|=''),
    (PIPE_PIPE, ''||''),
    (PIPE_PIPE_EQUAL, ''||=''),
    (PLUS, ''+''),
    (PLUS_EQUAL, ''+=''),
    (QUESTION, ''?''),
    (SEMICOLON, '';''),
    (SLASH, ''/''),
    (SLASH_EQUAL, ''/=''),
    (STAR, ''*''),
    (STAR_EQUAL, ''*=''),
    (STAR_STAR, ''**''),
    (STAR_STAR_EQUAL, ''**=''),
    (TILDE, ''~''),
    (BACKSLASH, [CHR 0x5C]),
    (UPLUS, ''+@''),
    (UMINUS, ''-@''),
    (USTAR, ''*''),
    (USTAR_STAR, ''**''),
    (UAMPERSAND, ''&''),
    (UCOLON_COLON, ''::''),
    (LPAREN, ''(''),
    (LPAREN_ARG, ''(''),
    (LPAREN_BEG, ''(''),
    (RPAREN, '')''),
    (LBRACKET, ''[''),
    (LBRACKET_ARRAY, ''[''),
    (RBRACKET, '']''),
    (LBRACE, ''{''),
    (LBRACE_ARG, ''{''),
    (LBRACE_BLOCK, ''{''),
    (RBRACE, ''}''),
    (BRACKET_LEFT_RIGHT, ''[]''),
    (BRACKET_LEFT_RIGHT_EQUAL, ''[]=''),
    (STRING_BEGIN, ''STRING_BEGIN''),
    (STRING_CONTENT, ''STRING_CONTENT''),
    (STRING_END, ''STRING_END''),
    (XSTRING_BEGIN, ''XSTRING_BEGIN''),
    (SYMBOL_BEGIN, ''SYMBOL_BEGIN''),
    (REGEXP_BEGIN, ''REGEXP_BEGIN''),
    (REGEXP_END, ''REGEXP_END''),
    (WORDS_BEGIN, ''WORDS_BEGIN''),
    (WORDS_SEP, ''WORDS_SEP''),
    (SYMBOLS_BEGIN, ''SYMBOLS_BEGIN''),
    (HEREDOC_BEGIN, ''HEREDOC_BEGIN''),
    (HEREDOC_END, ''HEREDOC_END''),
    (EMBEXPR_BEGIN, ''EMBEXPR_BEGIN''),
    (EMBEXPR_END, ''EMBEXPR_END''),
    (EMBVAR, ''EMBVAR''),
    (LAMBDA_BEGIN, ''LAMBDA_BEGIN''),
    (LAMBDA_LBRACE, ''LAMBDA_LBRACE''),
    (BDOT2, ''BDOT2''),
    (BDOT3, ''BDOT3''),
    (MISSING, ''MISSING'')]"

definition Type_String :: "Type \<Rightarrow> string" where
  "Type_String t = (case map_of tokenNames t of Some name \<Rightarrow> name | None \<Rightarrow> ''UNKNOWN'')"

text \<open>The map \<^verbatim>\<open>Keywords\<close>.\<close>

definition Keywords :: "(string \<times> Type) list" where
  "Keywords = [
    (''__ENCODING__'', KEYWORD_ENCODING),
    (''__FILE__'', KEYWORD_FILE),
    (''__LINE__'', KEYWORD_LINE),
    (''alias'', KEYWORD_ALIAS),
    (''and'', KEYWORD_AND),
    (''begin'', KEYWORD_BEGIN),
    (''BEGIN'', KEYWORD_BEGIN_UPCASE),
    (''break'', KEYWORD_BREAK),
    (''case'', KEYWORD_CASE),
    (''class'', KEYWORD_CLASS),
    (''def'', KEYWORD_DEF),
    (''defined?'', KEYWORD_DEFINED),
    (''do'', KEYWORD_DO),
    (''else'', KEYWORD_ELSE),
    (''elsif'', KEYWORD_ELSIF),
    (''end'', KEYWORD_END),
    (''END'', KEYWORD_END_UPCASE),
    (''ensure'', KEYWORD_ENSURE),
    (''false'', KEYWORD_FALSE),
    (''for'', KEYWORD_FOR),
    (''if'', KEYWORD_IF),
    (''in'', KEYWORD_IN),
    (''module'', KEYWORD_MODULE),
    (''next'', KEYWORD_NEXT),
    (''nil'', KEYWORD_NIL),
    (''not'', KEYWORD_NOT),
    (''or'', KEYWORD_OR),
    (''redo'', KEYWORD_REDO),
    (''rescue'', KEYWORD_RESCUE),
    (''retry'', KEYWORD_RETRY),
    (''return'', KEYWORD_RETURN),
    (''self'', KEYWORD_SELF),
    (''super'', KEYWORD_SUPER),
    (''then'', KEYWORD_THEN),
    (''true'', KEYWORD_TRUE),
    (''undef'', KEYWORD_UNDEF),
    (''unless'', KEYWORD_UNLESS),
    (''until'', KEYWORD_UNTIL),
    (''when'', KEYWORD_WHEN),
    (''while'', KEYWORD_WHILE),
    (''yield'', KEYWORD_YIELD)]"

text \<open>\<^verbatim>\<open>type Token struct\<close>. The positions are Go \<^verbatim>\<open>int\<close>s.\<close>

record Token =
  Type :: Type
  Literal :: string
  Line :: int
  Column :: int
  Offset :: int

text \<open>
  Bytes are \<^typ>\<open>char\<close> (eight bits), a Go \<^verbatim>\<open>string\<close> is the list of its bytes.
  Byte comparisons such as \<^verbatim>\<open>ch >= 'a'\<close> compare the codes.
\<close>

abbreviation NUL :: char where "NUL \<equiv> CHR 0x00"
abbreviation TAB :: char where "TAB \<equiv> CHR 0x09"
abbreviation NL :: char where "NL \<equiv> CHR 0x0A"
abbreviation CR :: char where "CR \<equiv> CHR 0x0D"
abbreviation SPC :: char where "SPC \<equiv> CHR 0x20"
abbreviation DQUOTE :: char where "DQUOTE \<equiv> CHR 0x22"
abbreviation SQUOTE :: char where "SQUOTE \<equiv> CHR 0x27"
abbreviation BSLASH :: char where "BSLASH \<equiv> CHR 0x5C"
abbreviation BTICK :: char where "BTICK \<equiv> CHR 0x60"

definition code :: "char \<Rightarrow> nat" where
  "code c = of_char c"

definition LookupIdent :: "string \<Rightarrow> Type" where
  "LookupIdent ident =
     (case map_of Keywords ident of
        Some tok \<Rightarrow> tok
      | None \<Rightarrow>
          if length ident > 0 \<and> code (ident ! 0) \<ge> code (CHR ''A'') \<and> code (ident ! 0) \<le> code (CHR ''Z'')
          then CONSTANT else IDENT)"

definition IsKeyword :: "Type \<Rightarrow> bool" where
  "IsKeyword t \<longleftrightarrow> t > keyword_beg \<and> t < keyword_end"

section \<open>Package lexer\<close>

datatype stringMode =
    modeNone
  | modeSingleQuote
  | modeDoubleQuote
  | modeBacktick
  | modeRegexp
  | modePercentQ
  | modePercentQUpper
  | modePercentW
  | modePercentWUpper
  | modePercentI
  | modePercentIUpper
  | modePercentR
  | modePercentS
  | modePercentX
  | modePercentDefault
  | modeHeredoc
  | modeSymbolDoubleQuote
  | modeSymbolSingleQuote

record stringState =
  mode :: stringMode
  terminator :: char
  openDelimiter :: char
  nestingLevel :: int
  interpolating :: bool
  heredocIdent :: string
  heredocIndented :: bool
  heredocSquiggle :: bool
  heredocQuoted :: bool
  savedBraceDepth :: int

text \<open>
  \<^verbatim>\<open>type Lexer struct\<close>. The indices \<^verbatim>\<open>position\<close> and \<^verbatim>\<open>readPosition\<close> start at 0 and are
  only ever incremented or set to \<^verbatim>\<open>len(l.input)\<close>, so they are natural numbers here.
  The pointer \<^verbatim>\<open>currentState\<close> is either \<^verbatim>\<open>nil\<close> or was taken as
  \<^verbatim>\<open>&l.stringStack[len(l.stringStack)-1]\<close>: it is the index of the element it points to.
  Reads and writes through the pointer go to that element of \<^verbatim>\<open>stringStack\<close>.
\<close>

record Lexer =
  input :: string
  position :: nat
  readPosition :: nat
  ch :: char
  line :: int
  column :: int
  prevColumn :: int
  stringStack :: "stringState list"
  currentState :: "nat option"
  braceDepth :: int
  afterOperator :: bool
  afterKeyword :: bool
  afterIdent :: bool
  afterRightParen :: bool
  afterRightBracket :: bool
  inLabelContext :: bool
  sawNewline :: bool
  startOfLine :: bool
  afterDot :: bool
  heredocQueue :: "stringState list"
  heredocPos :: int

definition readChar :: "Lexer \<Rightarrow> Lexer" where
  "readChar l =
     (let c = (if readPosition l \<ge> length (input l) then NUL else input l ! readPosition l)
      in l\<lparr>prevColumn := column l,
            ch := c,
            position := readPosition l,
            readPosition := readPosition l + 1,
            line := (if c = NL then line l + 1 else line l),
            column := (if c = NL then 0 else column l + 1)\<rparr>)"

definition New :: "string \<Rightarrow> Lexer" where
  "New inp =
     readChar \<lparr>input = inp, position = 0, readPosition = 0, ch = NUL, line = 1, column = 0,
               prevColumn = 0, stringStack = [], currentState = None, braceDepth = 0,
               afterOperator = False, afterKeyword = False, afterIdent = False,
               afterRightParen = False, afterRightBracket = False, inLabelContext = False,
               sawNewline = False, startOfLine = True, afterDot = False,
               heredocQueue = [], heredocPos = 0\<rparr>"

definition peekChar :: "Lexer \<Rightarrow> char" where
  "peekChar l = (if readPosition l \<ge> length (input l) then NUL else input l ! readPosition l)"

definition peekCharN :: "Lexer \<Rightarrow> nat \<Rightarrow> char" where
  "peekCharN l n =
     (let pos = readPosition l + n - 1
      in if pos \<ge> length (input l) then NUL else input l ! pos)"

text \<open>
  A slice expression \<^verbatim>\<open>s[a:b]\<close> panics unless \<^verbatim>\<open>a <= b <= len(s)\<close>; \<open>None\<close> is the
  panic.
\<close>

definition slice :: "string \<Rightarrow> nat \<Rightarrow> nat \<Rightarrow> string option" where
  "slice s a b = (if a \<le> b \<and> b \<le> length s then Some (take (b - a) (drop a s)) else None)"

definition setTokenPosition :: "Token \<Rightarrow> int \<Rightarrow> int \<Rightarrow> int \<Rightarrow> Token" where
  "setTokenPosition tok ln col off = tok\<lparr>Line := ln, Column := col, Offset := off\<rparr>"

definition newToken :: "Type \<Rightarrow> string \<Rightarrow> Token" where
  "newToken tokenType literal =
     \<lparr>Type = tokenType, Literal = literal, Line = 0, Column = 0, Offset = 0\<rparr>"

definition isLetter :: "char \<Rightarrow> bool" where
  "isLetter c \<longleftrightarrow>
     (code c \<ge> code (CHR ''a'') \<and> code c \<le> code (CHR ''z'')) \<or>
     (code c \<ge> code (CHR ''A'') \<and> code c \<le> code (CHR ''Z''))"

definition isDigit :: "char \<Rightarrow> bool" where
  "isDigit c \<longleftrightarrow> code c \<ge> code (CHR ''0'') \<and> code c \<le> code (CHR ''9'')"

definition isHexDigit :: "char \<Rightarrow> bool" where
  "isHexDigit c \<longleftrightarrow>
     isDigit c \<or> (code c \<ge> code (CHR ''a'') \<and> code c \<le> code (CHR ''f'')) \<or>
     (code c \<ge> code (CHR ''A'') \<and> code c \<le> code (CHR ''F''))"

definition isOctalDigit :: "char \<Rightarrow> bool" where
  "isOctalDigit c \<longleftrightarrow> code c \<ge> code (CHR ''0'') \<and> code c \<le> code (CHR ''7'')"

definition isPunctuation :: "char \<Rightarrow> bool" where
  "isPunctuation c \<longleftrightarrow>
     c = CHR '':'' \<or> c = CHR '';'' \<or> c = CHR ''/'' \<or> c = BSLASH \<or> c = CHR ''!'' \<or>
     c = CHR ''?'' \<or> c = DQUOTE \<or> c = SQUOTE \<or> c = CHR ''<'' \<or> c = CHR ''>'' \<or>
     c = CHR ''.'' \<or> c = CHR '','' \<or> c = CHR ''='' \<or> c = CHR ''~'' \<or> c = CHR ''*'' \<or>
     c = CHR ''$'' \<or> c = CHR ''@'' \<or> c = CHR ''&'' \<or> c = BTICK \<or> c = CHR ''+'' \<or>
     c = CHR ''-'' \<or> c = CHR ''0''"

definition isPercentDelimiter :: "char \<Rightarrow> bool" where
  "isPercentDelimiter c \<longleftrightarrow>
     c \<noteq> NUL \<and> \<not> isLetter c \<and> \<not> isDigit c \<and> c \<noteq> SPC \<and> c \<noteq> TAB \<and> c \<noteq> NL"

definition matchingDelimiter :: "char \<Rightarrow> char" where
  "matchingDelimiter opn =
     (if opn = CHR ''('' then CHR '')''
      else if opn = CHR ''['' then CHR '']''
      else if opn = CHR ''{'' then CHR ''}''
      else if opn = CHR ''<'' then CHR ''>''
      else opn)"

text \<open>
  The loops of the form \<^verbatim>\<open>for cond(l.ch) { l.readChar() }\<close>. Every condition of the
  source is false at the byte 0 that \<^verbatim>\<open>readChar\<close> delivers at the end of the input.
\<close>

definition remaining :: "Lexer \<Rightarrow> nat" where
  "remaining l = length (input l) - readPosition l + (if ch l = NUL then 0 else 1)"

function readWhile :: "(char \<Rightarrow> bool) \<Rightarrow> Lexer \<Rightarrow> Lexer" where
  "readWhile cond l = (if cond (ch l) \<and> ch l \<noteq> NUL then readWhile cond (readChar l) else l)"
  by pat_completeness auto
termination
  by (relation "measure (\<lambda>(cond, l). remaining l)")
     (auto simp: remaining_def readChar_def Let_def)

definition skipWhitespace :: "Lexer \<Rightarrow> Lexer" where
  "skipWhitespace l = readWhile (\<lambda>c. c = SPC \<or> c = TAB \<or> c = CR) l"

declare readWhile.simps [simp del]

text \<open>The same loops where the source also collects the bytes it passes.\<close>

function readWhileAcc :: "(char \<Rightarrow> bool) \<Rightarrow> Lexer \<Rightarrow> string \<Rightarrow> string \<times> Lexer" where
  "readWhileAcc cond l acc =
     (if cond (ch l) \<and> ch l \<noteq> NUL then readWhileAcc cond (readChar l) (acc @ [ch l])
      else (acc, l))"
  by pat_completeness auto
termination
  by (relation "measure (\<lambda>(cond, l, acc). remaining l)")
     (auto simp: remaining_def readChar_def Let_def)

declare readWhileAcc.simps [simp del]

text \<open>
  The conversion \<^verbatim>\<open>string(b)\<close> of a byte: Go converts the integer to the UTF-8 encoding
  of the code point of that number, so a byte from 0x80 on becomes two bytes.
\<close>

definition string_of_byte :: "char \<Rightarrow> string" where
  "string_of_byte c =
     (if code c < 128 then [c]
      else [char_of (192 + code c div 64), char_of (128 + code c mod 64)])"

definition identChar :: "char \<Rightarrow> bool" where
  "identChar c \<longleftrightarrow> isLetter c \<or> isDigit c \<or> c = CHR ''_''"

definition digitOrUnderscore :: "char \<Rightarrow> bool" where
  "digitOrUnderscore c \<longleftrightarrow> isDigit c \<or> c = CHR ''_''"

definition notLineEnd :: "char \<Rightarrow> bool" where
  "notLineEnd c \<longleftrightarrow> c \<noteq> NL \<and> c \<noteq> NUL"

subsection \<open>Identifiers\<close>

text \<open>The part of \<^verbatim>\<open>lexIdentifier\<close> from the label check on.\<close>

definition lexIdentifier_tail :: "string \<Rightarrow> Lexer \<Rightarrow> Token \<times> Lexer" where
  "lexIdentifier_tail literal l =
     (if ch l = CHR '':'' \<and> peekChar l \<noteq> CHR '':'' \<and>
         (inLabelContext l \<or> afterOperator l \<or> startOfLine l)
      then (newToken LABEL (literal @ '':''), (readChar l)\<lparr>afterIdent := False\<rparr>)
      else
        let tokType = LookupIdent literal in
        if literal = ''__END__'' \<and> startOfLine l
        then (newToken END_MARKER literal,
              l\<lparr>afterKeyword := False, afterIdent := False,
                position := length (input l), readPosition := length (input l), ch := NUL\<rparr>)
        else
          let l1 = (if IsKeyword tokType
                    then l\<lparr>afterKeyword := True, afterIdent := False\<rparr>
                    else l\<lparr>afterKeyword := False, afterIdent := True\<rparr>)
          in (newToken tokType literal, l1\<lparr>startOfLine := False\<rparr>))"

definition lexIdentifier :: "Lexer \<Rightarrow> (Token \<times> Lexer) option" where
  "lexIdentifier l =
     (let startPos = position l;
          l1 = readWhile identChar l
      in case slice (input l1) startPos (position l1) of
           None \<Rightarrow> None
         | Some literal \<Rightarrow>
             if ch l1 = CHR ''?'' \<or> ch l1 = CHR ''!''
             then
               let literal1 = literal @ string_of_byte (ch l1);
                   l2 = readChar l1
               in if literal1 = ''defined?''
                  then Some (newToken KEYWORD_DEFINED literal1, l2\<lparr>afterKeyword := True\<rparr>)
                  else Some (newToken METHOD_NAME literal1, l2\<lparr>afterIdent := True\<rparr>)
             else if ch l1 = CHR ''='' \<and> peekChar l1 \<noteq> CHR ''='' \<and> peekChar l1 \<noteq> CHR ''~'' \<and>
                     peekChar l1 \<noteq> CHR ''>''
             then
               if \<not> afterDot l1
               then
                 if inLabelContext l1 \<and> peekChar l1 \<noteq> CHR ''=''
                 then Some (lexIdentifier_tail literal l1)
                 else if peekChar l1 \<noteq> CHR ''=''
                 then Some (newToken METHOD_NAME (literal @ ''=''), (readChar l1)\<lparr>afterIdent := True\<rparr>)
                 else Some (lexIdentifier_tail literal l1)
               else Some (lexIdentifier_tail literal l1)
             else Some (lexIdentifier_tail literal l1))"

subsection \<open>Numbers\<close>

text \<open>The four prefixed forms \<^verbatim>\<open>0x\<close>, \<^verbatim>\<open>0o\<close>, \<^verbatim>\<open>0b\<close>, \<^verbatim>\<open>0d\<close> of \<^verbatim>\<open>lexNumber\<close>.\<close>

definition lexNumber_radix :: "nat \<Rightarrow> (char \<Rightarrow> bool) \<Rightarrow> Lexer \<Rightarrow> (Token \<times> Lexer) option" where
  "lexNumber_radix startPos digit l =
     (let l1 = readWhile digit (readChar l);
          l2 = l1\<lparr>afterIdent := True, startOfLine := False\<rparr>
      in case slice (input l2) startPos (position l2) of
           None \<Rightarrow> None
         | Some literal \<Rightarrow> Some (newToken INTEGER literal, l2))"

definition readExponent :: "Lexer \<Rightarrow> Lexer" where
  "readExponent l =
     (let l1 = readChar l;
          l2 = (if ch l1 = CHR ''+'' \<or> ch l1 = CHR ''-'' then readChar l1 else l1)
      in readWhile digitOrUnderscore l2)"

text \<open>The part of \<^verbatim>\<open>lexNumber\<close> from \<^verbatim>\<open>// Read integer part\<close> on.\<close>

definition lexNumber_rest :: "nat \<Rightarrow> bool \<Rightarrow> Lexer \<Rightarrow> (Token \<times> Lexer) option" where
  "lexNumber_rest startPos isFloat0 l =
     (let l1 = readWhile digitOrUnderscore l;
          (isFloat1, l2) =
            (if ch l1 = CHR ''.'' \<and> isDigit (peekChar l1)
             then (True, readWhile digitOrUnderscore (readChar l1))
             else (isFloat0, l1));
          (isFloat, l3) =
            (if ch l2 = CHR ''e'' \<or> ch l2 = CHR ''E''
             then (True, readExponent l2)
             else (isFloat1, l2));
          (isRational, l4) = (if ch l3 = CHR ''r'' then (True, readChar l3) else (False, l3));
          (isImaginary, l5) = (if ch l4 = CHR ''i'' then (True, readChar l4) else (False, l4))
      in case slice (input l5) startPos (position l5) of
           None \<Rightarrow> None
         | Some literal \<Rightarrow>
             let l6 = l5\<lparr>afterIdent := True, startOfLine := False\<rparr>
             in if isImaginary then Some (newToken IMAGINARY literal, l6)
                else if isRational then Some (newToken RATIONAL literal, l6)
                else if isFloat then Some (newToken FLOAT literal, l6)
                else Some (newToken INTEGER literal, l6))"

definition lexNumber :: "Lexer \<Rightarrow> (Token \<times> Lexer) option" where
  "lexNumber l =
     (let startPos = position l in
      if ch l = CHR ''0''
      then
        let l1 = readChar l in
        if ch l1 = CHR ''x'' \<or> ch l1 = CHR ''X''
        then lexNumber_radix startPos (\<lambda>c. isHexDigit c \<or> c = CHR ''_'') l1
        else if ch l1 = CHR ''o'' \<or> ch l1 = CHR ''O''
        then lexNumber_radix startPos (\<lambda>c. isOctalDigit c \<or> c = CHR ''_'') l1
        else if ch l1 = CHR ''b'' \<or> ch l1 = CHR ''B''
        then lexNumber_radix startPos (\<lambda>c. c = CHR ''0'' \<or> c = CHR ''1'' \<or> c = CHR ''_'') l1
        else if ch l1 = CHR ''d'' \<or> ch l1 = CHR ''D''
        then lexNumber_radix startPos digitOrUnderscore l1
        else if ch l1 = CHR ''.''
        then (if isDigit (peekChar l1)
              then lexNumber_rest startPos True (readWhile digitOrUnderscore (readChar l1))
              else lexNumber_rest startPos False l1)
        else if ch l1 = CHR ''e'' \<or> ch l1 = CHR ''E''
        then lexNumber_rest startPos True (readExponent l1)
        else lexNumber_rest startPos False l1
      else lexNumber_rest startPos False l)"

subsection \<open>Variables, comments, character literals\<close>

definition lexInstanceOrClassVariable :: "Lexer \<Rightarrow> (Token \<times> Lexer) option" where
  "lexInstanceOrClassVariable l =
     (let startPos = position l;
          l1 = readChar l
      in if ch l1 = CHR ''@''
         then
           let l2 = readWhile identChar (readChar l1);
               l3 = l2\<lparr>afterIdent := True\<rparr>
           in case slice (input l3) startPos (position l3) of
                None \<Rightarrow> None
              | Some literal \<Rightarrow> Some (newToken CVAR literal, l3)
         else
           let l2 = readWhile identChar l1;
               l3 = l2\<lparr>afterIdent := True\<rparr>
           in case slice (input l3) startPos (position l3) of
                None \<Rightarrow> None
              | Some literal \<Rightarrow> Some (newToken IVAR literal, l3))"

definition sliceToken :: "Type \<Rightarrow> nat \<Rightarrow> Lexer \<Rightarrow> (Token \<times> Lexer) option" where
  "sliceToken tokenType startPos l =
     (case slice (input l) startPos (position l) of
        None \<Rightarrow> None
      | Some literal \<Rightarrow> Some (newToken tokenType literal, l))"

definition lexGlobalVariable :: "Lexer \<Rightarrow> (Token \<times> Lexer) option" where
  "lexGlobalVariable l =
     (let startPos = position l;
          l1 = readChar l
      in if isDigit (ch l1) \<and> ch l1 \<noteq> CHR ''0''
         then sliceToken NTH_REF startPos (readWhile isDigit l1)
         else if ch l1 = CHR ''&'' \<or> ch l1 = BTICK \<or> ch l1 = SQUOTE \<or> ch l1 = CHR ''+''
         then sliceToken BACK_REF startPos (readChar l1)
         else if ch l1 = CHR ''-'' \<and> isLetter (peekChar l1)
         then sliceToken GVAR startPos (readChar (readChar l1))
         else if isPunctuation (ch l1)
         then sliceToken GVAR startPos (readChar l1)
         else sliceToken GVAR startPos ((readWhile identChar l1)\<lparr>afterIdent := True\<rparr>))"

definition lexComment :: "Lexer \<Rightarrow> (Token \<times> Lexer) option" where
  "lexComment l = sliceToken COMMENT (position l) (readWhile notLineEnd l)"

definition lexCharLiteral :: "Lexer \<Rightarrow> (Token \<times> Lexer) option" where
  "lexCharLiteral l =
     (let startPos = position l;
          l1 = readChar l;
          l2 = (if ch l1 = BSLASH then readChar (readChar l1) else readChar l1)
      in sliceToken CHAR_LIT startPos l2)"

definition shouldLexCharLiteral :: "Lexer \<Rightarrow> bool" where
  "shouldLexCharLiteral l =
     (if peekChar l = NUL then False
      else if afterIdent l \<or> afterRightParen l \<or> afterRightBracket l then False
      else True)"

subsection \<open>The string-mode stack\<close>

definition pushStringState :: "Lexer \<Rightarrow> stringMode \<Rightarrow> char \<Rightarrow> char \<Rightarrow> bool \<Rightarrow> Lexer" where
  "pushStringState l md trm openDelim interp =
     (let state = \<lparr>mode = md, terminator = trm, openDelimiter = openDelim, nestingLevel = 1,
                    interpolating = interp, heredocIdent = [], heredocIndented = False,
                    heredocSquiggle = False, heredocQuoted = False, savedBraceDepth = 0\<rparr>
      in l\<lparr>stringStack := stringStack l @ [state],
            currentState := Some (length (stringStack l))\<rparr>)"

definition pushStringStateWithBraceDepth :: "Lexer \<Rightarrow> stringMode \<Rightarrow> char \<Rightarrow> char \<Rightarrow> bool \<Rightarrow> Lexer" where
  "pushStringStateWithBraceDepth l md trm openDelim interp =
     (let state = \<lparr>mode = md, terminator = trm, openDelimiter = openDelim, nestingLevel = 1,
                    interpolating = interp, heredocIdent = [], heredocIndented = False,
                    heredocSquiggle = False, heredocQuoted = False,
                    savedBraceDepth = braceDepth l\<rparr>
      in l\<lparr>braceDepth := 0,
            stringStack := stringStack l @ [state],
            currentState := Some (length (stringStack l))\<rparr>)"

definition topState :: "Lexer \<Rightarrow> nat option" where
  "topState l = Some (length (stringStack l) - 1)"

definition popStringState :: "Lexer \<Rightarrow> Lexer" where
  "popStringState l =
     (let l1 = (if length (stringStack l) > 0
                then l\<lparr>braceDepth := savedBraceDepth (last (stringStack l)),
                       stringStack := butlast (stringStack l)\<rparr>
                else l)
      in if braceDepth l1 > 0 then l1\<lparr>currentState := None\<rparr>
         else if length (stringStack l1) > 0 then l1\<lparr>currentState := topState l1\<rparr>
         else l1\<lparr>currentState := None\<rparr>)"

text \<open>Writes through the pointer \<^verbatim>\<open>state\<close>, to the element \<open>i\<close> of the stack.\<close>

definition setNesting :: "nat \<Rightarrow> int \<Rightarrow> Lexer \<Rightarrow> Lexer" where
  "setNesting i n l = l\<lparr>stringStack := (stringStack l)[i := (stringStack l ! i)\<lparr>nestingLevel := n\<rparr>]\<rparr>"

definition setTerminator :: "nat \<Rightarrow> char \<Rightarrow> Lexer \<Rightarrow> Lexer" where
  "setTerminator i c l = l\<lparr>stringStack := (stringStack l)[i := (stringStack l ! i)\<lparr>terminator := c\<rparr>]\<rparr>"

definition setMode :: "nat \<Rightarrow> stringMode \<Rightarrow> Lexer \<Rightarrow> Lexer" where
  "setMode i md l = l\<lparr>stringStack := (stringStack l)[i := (stringStack l ! i)\<lparr>mode := md\<rparr>]\<rparr>"

definition setHeredocIdent :: "nat \<Rightarrow> string \<Rightarrow> Lexer \<Rightarrow> Lexer" where
  "setHeredocIdent i s l = l\<lparr>stringStack := (stringStack l)[i := (stringStack l ! i)\<lparr>heredocIdent := s\<rparr>]\<rparr>"

subsection \<open>Embedded documentation\<close>

definition lexEmbeddedDoc :: "Lexer \<Rightarrow> Token \<times> Lexer" where
  "lexEmbeddedDoc l =
     (let startPos = position l;
          l1 = readChar (readChar (readChar (readChar (readChar (readChar l)))));
          l2 = readWhile notLineEnd l1;
          l3 = (if ch l2 = NL then readChar l2 else l2);
          tok = (newToken EMBDOC_BEGIN ''=begin'')\<lparr>Line := line l3 - 1, Column := 1, Offset := int startPos\<rparr>;
          l4 = pushStringState l3 modeNone NUL NUL False;
          l5 = (case currentState l4 of Some i \<Rightarrow> setMode i modeNone l4 | None \<Rightarrow> l4)
      in (tok, l5))"

definition lexEmbdocContent :: "Lexer \<Rightarrow> (Token \<times> Lexer) option" where
  "lexEmbdocContent l =
     (let startPos = position l;
          startLine = line l
      in if ch l = CHR ''='' \<and> readPosition l + 2 < length (input l) \<and>
            slice (input l) (readPosition l) (readPosition l + 3) = Some ''end''
         then
           let l1 = readChar (readChar (readChar (readChar l)));
               l2 = readWhile notLineEnd l1;
               l3 = popStringState l2
           in Some ((newToken EMBDOC_END ''=end'')\<lparr>Line := startLine\<rparr>, l3)
         else
           let l1 = readWhile notLineEnd l
           in case slice (input l1) startPos (position l1) of
                None \<Rightarrow> None
              | Some ln \<Rightarrow>
                  if ch l1 = NL
                  then Some (newToken EMBDOC_LINE (ln @ [NL]), readChar l1)
                  else Some (newToken EMBDOC_LINE ln, l1))"

subsection \<open>Heredocs\<close>

definition isHeredocStart :: "Lexer \<Rightarrow> bool" where
  "isHeredocStart l =
     (let pos0 = readPosition l;
          pos = (if pos0 < length (input l) \<and> (input l ! pos0 = CHR ''-'' \<or> input l ! pos0 = CHR ''~'')
                 then pos0 + 1 else pos0)
      in if pos < length (input l)
         then let c = input l ! pos
              in isLetter c \<or> c = CHR ''_'' \<or> c = DQUOTE \<or> c = SQUOTE \<or> c = BTICK
         else False)"

text \<open>
  \<^verbatim>\<open>startPos := l.position - 1\<close> is negative when \<^verbatim>\<open>position\<close> is 0, and the slice
  \<^verbatim>\<open>l.input[startPos:l.position]\<close> panics then.
\<close>

definition lexHeredocBegin :: "Lexer \<Rightarrow> (Token \<times> Lexer) option" where
  "lexHeredocBegin l =
     (let (indented, squiggle, l1) =
            (if peekChar l = CHR ''-'' then (True, False, readChar l)
             else if peekChar l = CHR ''~'' then (True, True, readChar l)
             else (False, False, l));
          (quoted, quoteChar, l2) =
            (if peekChar l1 = DQUOTE \<or> peekChar l1 = SQUOTE \<or> peekChar l1 = BTICK
             then (True, peekChar l1, readChar l1)
             else (False, NUL, l1));
          l3 = readChar l2;
          identStart = position l3;
          l4 = readWhile identChar l3
      in case slice (input l4) identStart (position l4) of
           None \<Rightarrow> None
         | Some ident \<Rightarrow>
             let l5 = (if quoted \<and> ch l4 = quoteChar then readChar l4 else l4)
             in if position l = 0 then None
                else
                  case slice (input l5) (position l - 1) (position l5) of
                    None \<Rightarrow> None
                  | Some literal \<Rightarrow>
                      let l6 = (if ch l5 = NL then readChar l5 else l5);
                          state = \<lparr>mode = modeHeredoc, terminator = NUL, openDelimiter = NUL,
                                   nestingLevel = 0,
                                   interpolating = (\<not> quoted \<or> quoteChar \<noteq> SQUOTE),
                                   heredocIdent = ident, heredocIndented = indented,
                                   heredocSquiggle = squiggle, heredocQuoted = quoted,
                                   savedBraceDepth = 0\<rparr>
                      in Some (newToken HEREDOC_BEGIN literal,
                               l6\<lparr>stringStack := stringStack l6 @ [state],
                                   currentState := Some (length (stringStack l6))\<rparr>))"

definition lexLessThan :: "Lexer \<Rightarrow> (Token \<times> Lexer) option" where
  "lexLessThan l =
     (if peekChar l = CHR ''=''
      then
        let l1 = readChar l in
        if peekChar l1 = CHR ''>''
        then Some (newToken LESS_EQUAL_GREATER ''<=>'', readChar ((readChar l1)\<lparr>afterOperator := True\<rparr>))
        else Some (newToken LESS_EQUAL ''<='', readChar (l1\<lparr>afterOperator := True\<rparr>))
      else if peekChar l = CHR ''<''
      then
        let l1 = readChar l in
        if isHeredocStart l1 then lexHeredocBegin l1
        else if peekChar l1 = CHR ''=''
        then Some (newToken LESS_LESS_EQUAL ''<<='', readChar ((readChar l1)\<lparr>afterOperator := True\<rparr>))
        else Some (newToken LESS_LESS ''<<'', readChar (l1\<lparr>afterOperator := True\<rparr>))
      else Some (newToken LESS ''<'', readChar (l\<lparr>afterOperator := True\<rparr>)))"

text \<open>
  The line loop that \<^verbatim>\<open>lexHeredocContent\<close> and \<^verbatim>\<open>lexHeredocBody\<close> both contain. It
  returns whether the terminator line was found, with the content read so far.
\<close>

function heredocLoop :: "string \<Rightarrow> bool \<Rightarrow> string \<Rightarrow> Lexer \<Rightarrow> (bool \<times> string \<times> Lexer) option" where
  "heredocLoop ident indented content l =
     (let lineStart = position l;
          l1 = readWhile notLineEnd l
      in case slice (input l1) lineStart (position l1) of
           None \<Rightarrow> None
         | Some ln \<Rightarrow>
             let trimmedLine = dropWhile (\<lambda>c. c = SPC \<or> c = TAB) ln in
             if (indented \<and> trimmedLine = ident) \<or> (\<not> indented \<and> ln = ident)
             then Some (True, content, l1)
             else if ch l1 = NL
             then
               let l2 = readChar l1 in
               if ch l2 = NUL then Some (False, content @ ln @ [NL], l2)
               else heredocLoop ident indented (content @ ln @ [NL]) l2
             else if ch l1 = NUL then Some (False, content @ ln, l1)
             else heredocLoop ident indented (content @ ln) l1)"
  by pat_completeness auto
termination
proof -
  have step: "\<And>l. ch l \<noteq> NUL \<Longrightarrow> remaining (readChar l) < remaining l"
    by (auto simp: remaining_def readChar_def Let_def)
  have le: "\<And>cond l. remaining (readWhile cond l) \<le> remaining l"
  proof -
    fix cond l
    show "remaining (readWhile cond l) \<le> remaining l"
    proof (induction cond l rule: readWhile.induct)
      case (1 cond l)
      show ?case
      proof (cases "cond (ch l) \<and> ch l \<noteq> NUL")
        case True
        then have "readWhile cond l = readWhile cond (readChar l)"
          by (subst readWhile.simps) simp
        moreover have "remaining (readWhile cond (readChar l)) \<le> remaining (readChar l)"
          using 1 True by blast
        moreover have "remaining (readChar l) < remaining l"
          using True step by blast
        ultimately show ?thesis by simp
      next
        case False
        then have "readWhile cond l = l"
          by (subst readWhile.simps) auto
        then show ?thesis by simp
      qed
    qed
  qed
  have stop: "\<And>l. ch (readWhile notLineEnd l) = NL \<or> ch (readWhile notLineEnd l) = NUL"
  proof -
    fix l
    show "ch (readWhile notLineEnd l) = NL \<or> ch (readWhile notLineEnd l) = NUL"
    proof (induction notLineEnd l rule: readWhile.induct)
      case (1 l)
      show ?case
      proof (cases "notLineEnd (ch l) \<and> ch l \<noteq> NUL")
        case True
        then have "readWhile notLineEnd l = readWhile notLineEnd (readChar l)"
          by (subst readWhile.simps) simp
        then show ?thesis using 1 True by simp
      next
        case False
        then have "readWhile notLineEnd l = l"
          by (subst readWhile.simps) auto
        then show ?thesis using False by (auto simp: notLineEnd_def)
      qed
    qed
  qed
  show ?thesis
  proof (relation "measure (\<lambda>(ident, indented, content, l). remaining l)", goal_cases)
    case 1
    show ?case by simp
  next
    case (2 ident indented content l lineStart l1 ln trimmedLine l2)
    have "ch l1 \<noteq> NUL" using 2 by simp
    then have "remaining (readChar l1) < remaining l1" by (rule step)
    moreover have "remaining l1 \<le> remaining l" unfolding 2(2) by (rule le)
    ultimately show ?case using 2 by simp
  next
    case (3 ident indented content l lineStart l1 ln trimmedLine)
    then show ?case using stop [of l] by simp
  qed
qed

declare heredocLoop.simps [simp del]

text \<open>\<^verbatim>\<open>state.terminator = 1\<close> marks a heredoc whose content has been read.\<close>

definition lexHeredocContent :: "nat \<Rightarrow> Lexer \<Rightarrow> (Token \<times> Lexer) option" where
  "lexHeredocContent i l =
     (let state = stringStack l ! i;
          ident = heredocIdent state
      in if terminator state = CHR 0x01
         then Some (newToken HEREDOC_END ident, popStringState l)
         else
           case heredocLoop ident (heredocIndented state) [] l of
             None \<Rightarrow> None
           | Some (found, content, l1) \<Rightarrow>
               if found
               then Some (newToken STRING_CONTENT content, setTerminator i (CHR 0x01) l1)
               else Some (newToken STRING_CONTENT content, popStringState l1))"

text \<open>\<^verbatim>\<open>lexHeredocBody\<close> after its test of the queue, which is not empty here.\<close>

definition lexHeredocBody_queued :: "Lexer \<Rightarrow> (Token \<times> Lexer) option" where
  "lexHeredocBody_queued l =
     (let state = hd (heredocQueue l);
          l1 = l\<lparr>heredocQueue := tl (heredocQueue l), sawNewline := False\<rparr>;
          ident = heredocIdent state
      in case heredocLoop ident (heredocIndented state) [] l1 of
           None \<Rightarrow> None
         | Some (found, content, l2) \<Rightarrow>
             if found
             then
               let l3 = pushStringState l2 modeHeredoc NUL NUL False;
                   l4 = (case currentState l3 of Some i \<Rightarrow> setHeredocIdent i ident l3 | None \<Rightarrow> l3)
               in Some (newToken STRING_CONTENT content, l4)
             else Some (newToken STRING_CONTENT content, l2))"

subsection \<open>Regular expressions and percent literals\<close>

definition shouldLexRegexp :: "Lexer \<Rightarrow> bool" where
  "shouldLexRegexp l =
     (if afterIdent l \<or> afterRightParen l \<or> afterRightBracket l then False
      else afterOperator l \<or> afterKeyword l \<or> startOfLine l \<or> sawNewline l)"

definition lexRegexp :: "Lexer \<Rightarrow> Token \<times> Lexer" where
  "lexRegexp l =
     (newToken REGEXP_BEGIN ''/'', readChar (pushStringState l modeRegexp (CHR ''/'') NUL True))"

definition isPercentLiteral :: "Lexer \<Rightarrow> bool" where
  "isPercentLiteral l =
     (let next = peekChar l
      in if next = CHR ''q'' \<or> next = CHR ''Q'' \<or> next = CHR ''w'' \<or> next = CHR ''W'' \<or>
            next = CHR ''i'' \<or> next = CHR ''I'' \<or> next = CHR ''r'' \<or> next = CHR ''s'' \<or>
            next = CHR ''x''
         then isPercentDelimiter (peekCharN l 2)
         else isPercentDelimiter next)"

definition lexPercentLiteral :: "Lexer \<Rightarrow> (Token \<times> Lexer) option" where
  "lexPercentLiteral l =
     (let startPos = position l;
          l1 = readChar l;
          (md, tokenType, interp, l2) =
            (if ch l1 = CHR ''q'' then (modePercentQ, STRING_BEGIN, False, readChar l1)
             else if ch l1 = CHR ''Q'' then (modePercentQUpper, STRING_BEGIN, True, readChar l1)
             else if ch l1 = CHR ''w'' then (modePercentW, WORDS_BEGIN, False, readChar l1)
             else if ch l1 = CHR ''W'' then (modePercentWUpper, WORDS_BEGIN, True, readChar l1)
             else if ch l1 = CHR ''i'' then (modePercentI, SYMBOLS_BEGIN, False, readChar l1)
             else if ch l1 = CHR ''I'' then (modePercentIUpper, SYMBOLS_BEGIN, True, readChar l1)
             else if ch l1 = CHR ''r'' then (modePercentR, REGEXP_BEGIN, True, readChar l1)
             else if ch l1 = CHR ''s'' then (modePercentS, SYMBOL_BEGIN, False, readChar l1)
             else if ch l1 = CHR ''x'' then (modePercentX, XSTRING_BEGIN, True, readChar l1)
             else (modePercentDefault, STRING_BEGIN, True, l1));
          openDelim = ch l2;
          closeDelim = matchingDelimiter openDelim;
          l3 = readChar l2
      in case slice (input l3) startPos (position l3) of
           None \<Rightarrow> None
         | Some literal \<Rightarrow>
             Some (newToken tokenType literal, pushStringState l3 md closeDelim openDelim interp))"

subsection \<open>String content\<close>

definition isRegexpFlag :: "char \<Rightarrow> bool" where
  "isRegexpFlag c \<longleftrightarrow>
     c = CHR ''i'' \<or> c = CHR ''m'' \<or> c = CHR ''x'' \<or> c = CHR ''o'' \<or>
     c = CHR ''e'' \<or> c = CHR ''s'' \<or> c = CHR ''u'' \<or> c = CHR ''n''"

text \<open>
  What \<^verbatim>\<open>lexStringContent\<close> returns where the content collected so far is not empty:
  the \<^verbatim>\<open>STRING_CONTENT\<close> token at the position where the call started.
\<close>

definition contentToken :: "int \<Rightarrow> int \<Rightarrow> int \<Rightarrow> string \<Rightarrow> Token" where
  "contentToken startLine startColumn startOffset content =
     setTokenPosition (newToken STRING_CONTENT content) startLine startColumn startOffset"

text \<open>
  The loop of \<^verbatim>\<open>lexStringContent\<close> with the code after it. \<open>i\<close> is the element
  \<^verbatim>\<open>state\<close> points to, \<open>md\<close> the mode read before the loop.
\<close>

function lexStringLoop ::
  "nat \<Rightarrow> stringMode \<Rightarrow> int \<Rightarrow> int \<Rightarrow> int \<Rightarrow> string \<Rightarrow> Lexer \<Rightarrow> Token \<times> Lexer" where
  "lexStringLoop i md sl sc so content l =
     (let state = stringStack l ! i in
      if ch l = NUL
      then (if length content > 0 then (contentToken sl sc so content, l)
            else (newToken EOF [], popStringState l))
      else if ch l = terminator state
      then
        if nestingLevel state = 1 \<or> openDelimiter state = NUL
        then
          if length content > 0 then (contentToken sl sc so content, l)
          else if md = modeRegexp \<or> md = modePercentR
          then
            let (flags, l1) = readWhileAcc isRegexpFlag (readChar l) []
            in if md = modePercentR
               then (newToken REGEXP_END (string_of_byte (terminator state) @ flags), popStringState l1)
               else (newToken REGEXP_END (''/'' @ flags), popStringState l1)
          else (newToken STRING_END (string_of_byte (terminator state)), popStringState (readChar l))
        else lexStringLoop i md sl sc so (content @ [ch l])
               (readChar (setNesting i (nestingLevel state - 1) l))
      else if openDelimiter state \<noteq> NUL \<and> ch l = openDelimiter state
      then lexStringLoop i md sl sc so (content @ [ch l])
             (readChar (setNesting i (nestingLevel state + 1) l))
      else if ch l = BSLASH
      then
        let l1 = readChar l in
        if ch l1 \<noteq> NUL
        then lexStringLoop i md sl sc so (content @ [BSLASH, ch l1]) (readChar l1)
        else lexStringLoop i md sl sc so (content @ [BSLASH]) l1
      else if interpolating state \<and> ch l = CHR ''#'' \<and> peekChar l = CHR ''{''
      then
        if length content > 0 then (contentToken sl sc so content, l)
        else (newToken EMBEXPR_BEGIN ''#{'', (readChar (readChar l))\<lparr>braceDepth := 1, currentState := None\<rparr>)
      else if interpolating state \<and> ch l = CHR ''#'' \<and> (peekChar l = CHR ''@'' \<or> peekChar l = CHR ''$'')
      then
        if length content > 0 then (contentToken sl sc so content, l)
        else (newToken EMBVAR ''#'', (readChar l)\<lparr>currentState := None\<rparr>)
      else lexStringLoop i md sl sc so (content @ [ch l]) (readChar l))"
  by pat_completeness auto
termination
proof -
  have step: "\<And>l. ch l \<noteq> NUL \<Longrightarrow> remaining (readChar l) < remaining l"
    by (auto simp: remaining_def readChar_def Let_def)
  have nest: "\<And>i n l. remaining (readChar (setNesting i n l)) = remaining (readChar l)"
    by (simp add: remaining_def readChar_def setNesting_def Let_def)
  show ?thesis
  proof (relation "measure (\<lambda>(i, md, sl, sc, so, content, l). remaining l)", goal_cases)
    case 1
    show ?case by simp
  next
    case (2 i md sl sc so content l state)
    then show ?case using step [of l] by (simp add: nest)
  next
    case (3 i md sl sc so content l state)
    then show ?case using step [of l] by (simp add: nest)
  next
    case (4 i md sl sc so content l state l1)
    have "remaining (readChar l) < remaining l" using 4 step [of l] by simp
    moreover have "remaining (readChar l1) < remaining l1" using 4 step [of l1] by simp
    ultimately show ?case using 4 by simp
  next
    case (5 i md sl sc so content l state l1)
    then show ?case using step [of l] by simp
  next
    case (6 i md sl sc so content l state)
    then show ?case using step [of l] by simp
  qed
qed

declare lexStringLoop.simps [simp del]

subsection \<open>Word arrays\<close>

definition isWordSpace :: "char \<Rightarrow> bool" where
  "isWordSpace c \<longleftrightarrow> c = SPC \<or> c = TAB \<or> c = NL \<or> c = CR"

text \<open>
  The loop \<^verbatim>\<open>// Read word content\<close> of \<^verbatim>\<open>lexWordArrayContent\<close>. Its \<^verbatim>\<open>return\<close> at a
  separator with content collected returns what the code after the loop returns for
  that content, so the loop hands the content and the state to that code in every case.
\<close>

function wordLoop :: "nat \<Rightarrow> string \<Rightarrow> Lexer \<Rightarrow> string \<times> Lexer" where
  "wordLoop i content l =
     (let state = stringStack l ! i in
      if ch l = NUL then (content, l)
      else if isWordSpace (ch l) then (content, l)
      else if ch l = terminator state \<and> (nestingLevel state = 1 \<or> openDelimiter state = NUL)
      then (content, l)
      else
        let l1 = (if ch l = terminator state then setNesting i (nestingLevel state - 1) l else l);
            state1 = stringStack l1 ! i;
            l2 = (if openDelimiter state1 \<noteq> NUL \<and> ch l1 = openDelimiter state1
                  then setNesting i (nestingLevel state1 + 1) l1 else l1)
        in if ch l2 = BSLASH
           then
             let l3 = readChar l2 in
             if ch l3 \<noteq> NUL then wordLoop i (content @ [ch l3]) (readChar l3)
             else wordLoop i content l3
           else wordLoop i (content @ [ch l2]) (readChar l2))"
  by pat_completeness auto
termination
proof -
  have step: "\<And>l. ch l \<noteq> NUL \<Longrightarrow> remaining (readChar l) < remaining l"
    by (auto simp: remaining_def readChar_def Let_def)
  have nest: "\<And>i n l. remaining (readChar (setNesting i n l)) = remaining (readChar l)"
    by (simp add: remaining_def readChar_def setNesting_def Let_def)
  have nest0: "\<And>i n l. remaining (setNesting i n l) = remaining l"
    by (simp add: remaining_def setNesting_def)
  have chn: "\<And>i n l. ch (setNesting i n l) = ch l"
    by (simp add: setNesting_def)
  have rcn: "\<And>i n l. ch (readChar (setNesting i n l)) = ch (readChar l)"
    by (simp add: readChar_def setNesting_def Let_def)
  have two: "\<And>l. ch l \<noteq> NUL \<Longrightarrow> ch (readChar l) \<noteq> NUL
      \<Longrightarrow> remaining (readChar (readChar l)) < remaining l"
    using step by (meson less_trans)
  have rrn: "\<And>i n l. remaining (readChar (readChar (setNesting i n l))) = remaining (readChar (readChar l))"
    by (simp add: remaining_def readChar_def setNesting_def Let_def)
  show ?thesis
  proof (relation "measure (\<lambda>(i, content, l). remaining l)", goal_cases)
    case 1
    show ?case by simp
  next
    case (2 i content l state l1 state1 l2 l3)
    then have "ch l \<noteq> NUL" and "ch (readChar l) \<noteq> NUL"
      by (auto simp: chn rcn split: if_splits)
    then have "remaining (readChar (readChar l)) < remaining l" by (rule two)
    then show ?case using 2 by (auto simp: rrn nest split: if_splits)
  next
    case (3 i content l state l1 state1 l2 l3)
    then have "ch l \<noteq> NUL" by simp
    then have "remaining (readChar l) < remaining l" by (rule step)
    then show ?case using 3 by (auto simp: nest split: if_splits)
  next
    case (4 i content l state l1 state1 l2)
    then have "ch l \<noteq> NUL" by simp
    then have "remaining (readChar l) < remaining l" by (rule step)
    then show ?case using 4 by (auto simp: nest split: if_splits)
  qed
qed

declare wordLoop.simps [simp del]

definition lexWordArrayContent :: "nat \<Rightarrow> Lexer \<Rightarrow> Token \<times> Lexer" where
  "lexWordArrayContent i l0 =
     (let trm = terminator (stringStack l0 ! i);
          endTok = newToken STRING_END (string_of_byte trm);
          state0 = stringStack l0 ! i
      in if ch l0 = trm \<and> (nestingLevel state0 = 1 \<or> openDelimiter state0 = NUL)
         then (endTok, popStringState (readChar l0))
         else
           let l = (if ch l0 = trm then setNesting i (nestingLevel state0 - 1) l0 else l0);
               la = (if isWordSpace (ch l) then readWhile (\<lambda>c. isWordSpace c \<and> c \<noteq> trm) l else l);
               statea = stringStack la ! i
           in if isWordSpace (ch l) \<and> ch la = trm \<and>
                 (nestingLevel statea = 1 \<or> openDelimiter statea = NUL)
              then (endTok, popStringState (readChar la))
              else if isWordSpace (ch l) \<and> ch la \<noteq> NUL \<and> ch la \<noteq> trm
              then (newToken WORDS_SEP '' '', la)
              else
                let lb = (if openDelimiter statea \<noteq> NUL \<and> ch la = openDelimiter statea
                          then setNesting i (nestingLevel statea + 1) la else la);
                    (content, lc) = wordLoop i [] lb
                in if length content > 0 then (newToken STRING_CONTENT content, lc)
                   else if ch lc = trm then (endTok, popStringState (readChar lc))
                   else (newToken EOF [], popStringState lc))"

text \<open>
  \<^verbatim>\<open>lexStringContent\<close> for a string state that is neither a heredoc nor embedded
  documentation; \<open>i\<close> is the element \<^verbatim>\<open>l.currentState\<close> points to.
\<close>

definition lexStringContent_plain :: "nat \<Rightarrow> Lexer \<Rightarrow> Token \<times> Lexer" where
  "lexStringContent_plain i l =
     (let md = mode (stringStack l ! i)
      in if md = modePercentW \<or> md = modePercentWUpper \<or> md = modePercentI \<or> md = modePercentIUpper
         then lexWordArrayContent i l
         else lexStringLoop i md (line l) (column l) (int (position l)) [] l)"

subsection \<open>NextToken\<close>

text \<open>
  The end of \<^verbatim>\<open>NextToken\<close> after its \<^verbatim>\<open>switch\<close>: \<open>l0\<close> is the lexer at the start of
  the token (after \<^verbatim>\<open>skipWhitespace\<close>), where \<^verbatim>\<open>startLine\<close>, \<^verbatim>\<open>startColumn\<close> and
  \<^verbatim>\<open>startOffset\<close> were read.
\<close>

definition returnToken :: "Lexer \<Rightarrow> Token \<Rightarrow> Lexer \<Rightarrow> (Token \<times> Lexer) option" where
  "returnToken l0 tok l =
     Some (setTokenPosition tok (line l0) (column l0) (int (position l0)), l)"

definition finishToken :: "Lexer \<Rightarrow> Token \<Rightarrow> Lexer \<Rightarrow> (Token \<times> Lexer) option" where
  "finishToken l0 tok l =
     (if Type tok \<noteq> NEWLINE \<and> Type tok \<noteq> EOF
      then returnToken l0 tok (l\<lparr>startOfLine := False\<rparr>)
      else returnToken l0 tok l)"

definition finishWith :: "Lexer \<Rightarrow> (Token \<times> Lexer) option \<Rightarrow> (Token \<times> Lexer) option" where
  "finishWith l0 r = (case r of None \<Rightarrow> None | Some (tok, l) \<Rightarrow> finishToken l0 tok l)"

definition returnWith :: "Lexer \<Rightarrow> (Token \<times> Lexer) option \<Rightarrow> (Token \<times> Lexer) option" where
  "returnWith l0 r = (case r of None \<Rightarrow> None | Some (tok, l) \<Rightarrow> returnToken l0 tok l)"

text \<open>
  \<^verbatim>\<open>if len(l.stringStack) > 0 && l.currentState == nil\<close> after an instance, class or
  global variable: the string state paused by \<^verbatim>\<open>#@\<close> or \<^verbatim>\<open>#$\<close> is resumed.
\<close>

definition restoreStringState :: "Lexer \<Rightarrow> Lexer" where
  "restoreStringState l =
     (if length (stringStack l) > 0 \<and> currentState l = None
      then l\<lparr>currentState := topState l\<rparr> else l)"

text \<open>
  The \<^verbatim>\<open>switch l.ch\<close> of \<^verbatim>\<open>NextToken\<close> with the code after it. The case of a backslash
  before a newline, which calls \<^verbatim>\<open>NextToken\<close> again, is in \<open>NextToken\<close> below; a
  backslash reaches this function only before another byte.
\<close>

definition dispatch :: "Lexer \<Rightarrow> (Token \<times> Lexer) option" where
  "dispatch l =
     (let c = ch l; p = peekChar l in
      if c = NL
      then returnToken l (newToken NEWLINE [NL])
             ((readChar l)\<lparr>sawNewline := True, startOfLine := True, afterOperator := False,
                            afterKeyword := False, afterIdent := False, afterRightParen := False,
                            afterRightBracket := False, afterDot := False\<rparr>)
      else if c = NUL
      then finishToken l (newToken EOF []) l
      else if c = CHR ''+''
      then
        if p = CHR ''=''
        then finishToken l (newToken PLUS_EQUAL ''+='')
               (readChar ((readChar l)\<lparr>afterOperator := True, afterIdent := False\<rparr>))
        else finishToken l (newToken PLUS ''+'')
               (readChar (l\<lparr>afterOperator := False, afterIdent := False\<rparr>))
      else if c = CHR ''-''
      then
        if p = CHR ''=''
        then finishToken l (newToken MINUS_EQUAL ''-='')
               (readChar ((readChar l)\<lparr>afterOperator := True, afterIdent := False\<rparr>))
        else if p = CHR ''>''
        then finishToken l (newToken MINUS_GREATER ''->'')
               (readChar ((readChar l)\<lparr>afterOperator := True, afterIdent := False\<rparr>))
        else finishToken l (newToken MINUS ''-'')
               (readChar (l\<lparr>afterOperator := False, afterIdent := False\<rparr>))
      else if c = CHR ''*''
      then
        if p = CHR ''*''
        then
          let l1 = readChar l in
          if peekChar l1 = CHR ''=''
          then finishToken l (newToken STAR_STAR_EQUAL ''**='')
                 (readChar ((readChar l1)\<lparr>afterOperator := True, afterIdent := False\<rparr>))
          else finishToken l (newToken STAR_STAR ''**'')
                 (readChar (l1\<lparr>afterOperator := False, afterIdent := False\<rparr>))
        else if p = CHR ''=''
        then finishToken l (newToken STAR_EQUAL ''*='')
               (readChar ((readChar l)\<lparr>afterOperator := True, afterIdent := False\<rparr>))
        else finishToken l (newToken STAR ''*'')
               (readChar (l\<lparr>afterOperator := False, afterIdent := False\<rparr>))
      else if c = CHR ''/''
      then
        if p = CHR ''=''
        then finishToken l (newToken SLASH_EQUAL ''/='')
               (readChar ((readChar l)\<lparr>afterOperator := True\<rparr>))
        else if shouldLexRegexp l
        then finishWith l (Some (lexRegexp l))
        else finishToken l (newToken SLASH ''/'') (readChar (l\<lparr>afterOperator := False\<rparr>))
      else if c = CHR ''%''
      then
        if p = CHR ''=''
        then finishToken l (newToken PERCENT_EQUAL ''%='')
               (readChar ((readChar l)\<lparr>afterOperator := True\<rparr>))
        else if isPercentLiteral l
        then
          (case lexPercentLiteral l of
             None \<Rightarrow> None
           | Some (tok, l1) \<Rightarrow> finishToken l tok (l1\<lparr>afterOperator := False, afterIdent := True\<rparr>))
        else finishToken l (newToken PERCENT ''%'')
               (readChar (l\<lparr>afterOperator := False, afterIdent := True\<rparr>))
      else if c = CHR ''&''
      then
        if p = CHR ''&''
        then
          let l1 = readChar l in
          if peekChar l1 = CHR ''=''
          then finishToken l (newToken AMPERSAND_AMPERSAND_EQUAL ''&&='')
                 (readChar ((readChar l1)\<lparr>afterOperator := True\<rparr>))
          else finishToken l (newToken AMPERSAND_AMPERSAND ''&&'')
                 (readChar (l1\<lparr>afterOperator := True\<rparr>))
        else if p = CHR ''=''
        then finishToken l (newToken AMPERSAND_EQUAL ''&='')
               (readChar ((readChar l)\<lparr>afterOperator := True\<rparr>))
        else if p = CHR ''.''
        then finishToken l (newToken AMPERSAND_DOT ''&.'')
               (readChar ((readChar l)\<lparr>afterOperator := True\<rparr>))
        else finishToken l (newToken AMPERSAND ''&'') (readChar (l\<lparr>afterOperator := True\<rparr>))
      else if c = CHR ''|''
      then
        if p = CHR ''|''
        then
          let l1 = readChar l in
          if peekChar l1 = CHR ''=''
          then finishToken l (newToken PIPE_PIPE_EQUAL ''||='')
                 (readChar ((readChar l1)\<lparr>afterOperator := True\<rparr>))
          else finishToken l (newToken PIPE_PIPE ''||'') (readChar (l1\<lparr>afterOperator := True\<rparr>))
        else if p = CHR ''=''
        then finishToken l (newToken PIPE_EQUAL ''|='')
               (readChar ((readChar l)\<lparr>afterOperator := True\<rparr>))
        else finishToken l (newToken PIPE ''|'') (readChar (l\<lparr>afterOperator := True\<rparr>))
      else if c = CHR ''^''
      then
        if p = CHR ''=''
        then finishToken l (newToken CARET_EQUAL ''^='')
               (readChar ((readChar l)\<lparr>afterOperator := True\<rparr>))
        else finishToken l (newToken CARET ''^'') (readChar (l\<lparr>afterOperator := True\<rparr>))
      else if c = CHR ''~''
      then finishToken l (newToken TILDE ''~'') (readChar (l\<lparr>afterOperator := True\<rparr>))
      else if c = CHR ''<''
      then finishWith l (lexLessThan l)
      else if c = CHR ''>''
      then
        if p = CHR ''=''
        then finishToken l (newToken GREATER_EQUAL ''>='')
               (readChar ((readChar l)\<lparr>afterOperator := True\<rparr>))
        else if p = CHR ''>''
        then
          let l1 = readChar l in
          if peekChar l1 = CHR ''=''
          then finishToken l (newToken GREATER_GREATER_EQUAL ''>>='')
                 (readChar ((readChar l1)\<lparr>afterOperator := True\<rparr>))
          else finishToken l (newToken GREATER_GREATER ''>>'')
                 (readChar (l1\<lparr>afterOperator := True\<rparr>))
        else finishToken l (newToken GREATER ''>'') (readChar (l\<lparr>afterOperator := True\<rparr>))
      else if c = CHR ''=''
      then
        if p = CHR ''=''
        then
          let l1 = readChar l in
          if peekChar l1 = CHR ''=''
          then finishToken l (newToken EQUAL_EQUAL_EQUAL ''==='')
                 (readChar ((readChar l1)\<lparr>afterOperator := True, afterIdent := False\<rparr>))
          else finishToken l (newToken EQUAL_EQUAL ''=='')
                 (readChar (l1\<lparr>afterOperator := True, afterIdent := False\<rparr>))
        else if p = CHR ''~''
        then finishToken l (newToken EQUAL_TILDE ''=~'')
               (readChar ((readChar l)\<lparr>afterOperator := True, afterIdent := False\<rparr>))
        else if p = CHR ''>''
        then finishToken l (newToken EQUAL_GREATER ''=>'')
               (readChar ((readChar l)\<lparr>afterOperator := True, afterIdent := False\<rparr>))
        else if startOfLine l \<and> p = CHR ''b''
        then
          if readPosition l + 4 \<le> length (input l)
          then
            (case slice (input l) (readPosition l) (readPosition l + 5) of
               None \<Rightarrow> None
             | Some s \<Rightarrow>
                 if s = ''begin'' then Some (lexEmbeddedDoc l)
                 else finishToken l (newToken EQUAL ''='')
                        (readChar (l\<lparr>afterOperator := True, afterIdent := False\<rparr>)))
          else finishToken l (newToken EQUAL ''='')
                 (readChar (l\<lparr>afterOperator := True, afterIdent := False\<rparr>))
        else finishToken l (newToken EQUAL ''='')
               (readChar (l\<lparr>afterOperator := True, afterIdent := False\<rparr>))
      else if c = CHR ''!''
      then
        if p = CHR ''=''
        then finishToken l (newToken BANG_EQUAL ''!='')
               (readChar ((readChar l)\<lparr>afterOperator := True, afterIdent := False\<rparr>))
        else if p = CHR ''~''
        then finishToken l (newToken BANG_TILDE ''!~'')
               (readChar ((readChar l)\<lparr>afterOperator := True, afterIdent := False\<rparr>))
        else finishToken l (newToken BANG ''!'')
               (readChar (l\<lparr>afterOperator := True, afterIdent := False\<rparr>))
      else if c = CHR ''.''
      then
        if p = CHR ''.''
        then
          let l1 = readChar l in
          if peekChar l1 = CHR ''.''
          then finishToken l (newToken DOT_DOT_DOT ''...'')
                 (readChar ((readChar l1)\<lparr>afterOperator := True\<rparr>))
          else finishToken l (newToken DOT_DOT ''..'') (readChar (l1\<lparr>afterOperator := True\<rparr>))
        else finishToken l (newToken DOT ''.'') (readChar (l\<lparr>afterDot := True\<rparr>))
      else if c = CHR '':''
      then
        if p = CHR '':''
        then finishToken l (newToken COLON_COLON ''::'')
               (readChar ((readChar l)\<lparr>afterOperator := True\<rparr>))
        else if p = DQUOTE
        then finishToken l (newToken SYMBOL_BEGIN [CHR '':'', DQUOTE])
               (readChar (pushStringState (readChar l) modeSymbolDoubleQuote DQUOTE NUL True))
        else if p = SQUOTE
        then finishToken l (newToken SYMBOL_BEGIN [CHR '':'', SQUOTE])
               (readChar (pushStringState (readChar l) modeSymbolSingleQuote SQUOTE NUL False))
        else if isLetter p \<or> p = CHR ''_''
        then finishToken l (newToken SYMBOL_BEGIN '':'') (readChar l)
        else finishToken l (newToken COLON '':'') (readChar l)
      else if c = CHR '',''
      then finishToken l (newToken COMMA '','')
             (readChar (l\<lparr>afterOperator := True, afterIdent := False\<rparr>))
      else if c = CHR '';''
      then finishToken l (newToken SEMICOLON '';'')
             (readChar (l\<lparr>afterOperator := True, startOfLine := True\<rparr>))
      else if c = CHR ''(''
      then finishToken l (newToken LPAREN ''('')
             (readChar (l\<lparr>afterOperator := True, afterIdent := False\<rparr>))
      else if c = CHR '')''
      then finishToken l (newToken RPAREN '')'')
             (readChar (l\<lparr>afterRightParen := True, afterOperator := False\<rparr>))
      else if c = CHR ''[''
      then finishToken l (newToken LBRACKET ''['')
             (readChar (l\<lparr>afterOperator := True, afterIdent := False\<rparr>))
      else if c = CHR '']''
      then finishToken l (newToken RBRACKET '']'')
             (readChar (l\<lparr>afterRightBracket := True, afterOperator := False\<rparr>))
      else if c = CHR ''{''
      then
        let l1 = (if braceDepth l > 0 then l\<lparr>braceDepth := braceDepth l + 1\<rparr> else l)
        in finishToken l (newToken LBRACE ''{'')
             (readChar (l1\<lparr>inLabelContext := True, afterOperator := True\<rparr>))
      else if c = CHR ''}''
      then
        let l1 = (if braceDepth l > 0 then l\<lparr>braceDepth := braceDepth l - 1\<rparr> else l)
        in if braceDepth l > 0 \<and> braceDepth l1 = 0 \<and> length (stringStack l1) > 0
           then returnToken l (newToken EMBEXPR_END ''}'')
                  ((readChar l1)\<lparr>currentState := topState l1\<rparr>)
           else finishToken l (newToken RBRACE ''}'')
                  (readChar (l1\<lparr>afterOperator := False, inLabelContext := False\<rparr>))
      else if c = SQUOTE
      then finishToken l (newToken STRING_BEGIN [SQUOTE])
             (readChar (pushStringStateWithBraceDepth l modeSingleQuote SQUOTE NUL False))
      else if c = DQUOTE
      then finishToken l (newToken STRING_BEGIN [DQUOTE])
             (readChar (pushStringStateWithBraceDepth l modeDoubleQuote DQUOTE NUL True))
      else if c = BTICK
      then finishToken l (newToken XSTRING_BEGIN [BTICK])
             (readChar (pushStringStateWithBraceDepth l modeBacktick BTICK NUL True))
      else if c = CHR ''#''
      then finishWith l (lexComment l)
      else if c = CHR ''?''
      then
        if shouldLexCharLiteral l then finishWith l (lexCharLiteral l)
        else finishToken l (newToken QUESTION ''?'') (readChar (l\<lparr>afterOperator := True\<rparr>))
      else if c = BSLASH
      then finishToken l (newToken BACKSLASH [BSLASH]) (readChar l)
      else if c = CHR ''@''
      then
        (case lexInstanceOrClassVariable l of
           None \<Rightarrow> None
         | Some (tok, l1) \<Rightarrow> finishToken l tok (restoreStringState l1))
      else if c = CHR ''$''
      then
        (case lexGlobalVariable l of
           None \<Rightarrow> None
         | Some (tok, l1) \<Rightarrow> finishToken l tok (restoreStringState l1))
      else if isLetter c \<or> c = CHR ''_''
      then returnWith l (lexIdentifier l)
      else if isDigit c
      then returnWith l (lexNumber l)
      else finishToken l (newToken ILLEGAL (string_of_byte c)) (readChar l))"

text \<open>
  \<^verbatim>\<open>NextToken\<close>, \<^verbatim>\<open>lexStringContent\<close> and \<^verbatim>\<open>lexHeredocBody\<close> call each other. The result
  \<open>None\<close> is a run-time panic of the Go program.
\<close>

function NextToken :: "Lexer \<Rightarrow> (Token \<times> Lexer) option"
  and lexStringContent :: "Lexer \<Rightarrow> (Token \<times> Lexer) option"
  and lexHeredocBody :: "Lexer \<Rightarrow> (Token \<times> Lexer) option" where
  "NextToken l =
     (if currentState l \<noteq> None then lexStringContent l
      else if length (heredocQueue l) > 0 \<and> sawNewline l then lexHeredocBody l
      else
        let l1 = skipWhitespace l in
        if ch l1 = BSLASH \<and> peekChar l1 = NL then NextToken (readChar (readChar l1))
        else dispatch l1)"
| "lexStringContent l =
     (case currentState l of
        None \<Rightarrow> NextToken l
      | Some i \<Rightarrow>
          if mode (stringStack l ! i) = modeHeredoc then lexHeredocContent i l
          else if mode (stringStack l ! i) = modeNone then lexEmbdocContent l
          else Some (lexStringContent_plain i l))"
| "lexHeredocBody l =
     (if length (heredocQueue l) = 0 then NextToken l
      else lexHeredocBody_queued l)"
  by pat_completeness auto
termination
proof -
  have le: "\<And>cond l. readPosition l \<le> readPosition (readWhile cond l) \<and>
                        input (readWhile cond l) = input l"
  proof -
    fix cond l
    show "readPosition l \<le> readPosition (readWhile cond l) \<and> input (readWhile cond l) = input l"
    proof (induction cond l rule: readWhile.induct)
      case (1 cond l)
      show ?case
      proof (cases "cond (ch l) \<and> ch l \<noteq> NUL")
        case True
        then have "readWhile cond l = readWhile cond (readChar l)"
          by (subst readWhile.simps) simp
        moreover have "readPosition (readChar l) \<le> readPosition (readWhile cond (readChar l)) \<and>
            input (readWhile cond (readChar l)) = input (readChar l)"
          using 1 True by blast
        moreover have "readPosition l \<le> readPosition (readChar l) \<and> input (readChar l) = input l"
          by (simp add: readChar_def Let_def)
        ultimately show ?thesis by simp
      next
        case False
        then have "readWhile cond l = l"
          by (subst readWhile.simps) auto
        then show ?thesis by simp
      qed
    qed
  qed
  have cont: "\<And>l. peekChar l = NL \<Longrightarrow>
      length (input (readChar (readChar l))) - readPosition (readChar (readChar l))
        < length (input l) - readPosition l"
    by (auto simp: peekChar_def readChar_def Let_def split: if_splits)
  let ?rem = "\<lambda>l. length (input l) - readPosition l"
  show ?thesis
  proof (relation "measure (\<lambda>x. case x of
            Inl l \<Rightarrow> 4 * ?rem l +
                     (if currentState l \<noteq> None \<or> (length (heredocQueue l) > 0 \<and> sawNewline l)
                      then 2 else 0)
          | Inr (Inl l) \<Rightarrow> 4 * ?rem l + (if currentState l = None then 3 else 1)
          | Inr (Inr l) \<Rightarrow> 4 * ?rem l + (if length (heredocQueue l) = 0 then 3 else 1))",
         goal_cases)
    case 1
    show ?case by simp
  next
    case (2 l)
    then show ?case by simp
  next
    case (3 l)
    then show ?case by simp
  next
    case (4 l l1)
    have a: "?rem (readChar (readChar l1)) < ?rem l1" using 4 cont [of l1] by simp
    have "readPosition l \<le> readPosition l1 \<and> input l1 = input l"
      using 4 le [of l "\<lambda>c. c = SPC \<or> c = TAB \<or> c = CR"]
      by (simp add: skipWhitespace_def)
    then have b: "?rem l1 \<le> ?rem l"
      by (simp add: diff_le_mono2)
    show ?case using a b by simp
  next
    case (5 l)
    then show ?case by simp
  next
    case (6 l)
    then show ?case by simp
  qed
qed

declare NextToken.simps [simp del] lexStringContent.simps [simp del] lexHeredocBody.simps [simp del]

subsection \<open>Calling NextToken repeatedly\<close>

text \<open>
  A client of the lexer calls \<^verbatim>\<open>NextToken\<close> again and again, as the loops of
  \<^verbatim>\<open>lexer_test.go\<close> do. \<open>nextTokens n l\<close> is the list of the tokens that \<open>n\<close> calls
  return, with the lexer after them; it is \<open>None\<close> if one of the calls panics.
\<close>

primrec nextTokens :: "nat \<Rightarrow> Lexer \<Rightarrow> (Token list \<times> Lexer) option" where
  "nextTokens 0 l = Some ([], l)"
| "nextTokens (Suc n) l =
     (case NextToken l of
        None \<Rightarrow> None
      | Some (tok, l1) \<Rightarrow>
          (case nextTokens n l1 of
             None \<Rightarrow> None
           | Some (toks, l2) \<Rightarrow> Some (tok # toks, l2)))"

definition kindsAndLiterals :: "(Token list \<times> Lexer) option \<Rightarrow> (Type \<times> string) list option" where
  "kindsAndLiterals r = map_option (\<lambda>(toks, l). map (\<lambda>t. (Type t, Literal t)) toks) r"

definition positions :: "(Token list \<times> Lexer) option \<Rightarrow> (Type \<times> int \<times> int \<times> int) list option" where
  "positions r = map_option (\<lambda>(toks, l). map (\<lambda>t. (Type t, Line t, Column t, Offset t)) toks) r"

subsection \<open>The statements of the specification\<close>

text \<open>
  The regex start predicate in the words of the specification: none of \<open>after_ident\<close>,
  \<open>after_right_paren\<close>, \<open>after_right_bracket\<close> is set, and at least one of
  \<open>after_operator\<close>, \<open>after_keyword\<close>, \<open>start_of_line\<close>, \<open>saw_newline\<close> is set.
\<close>

definition regexpStart_spec :: "Lexer \<Rightarrow> bool" where
  "regexpStart_spec l \<longleftrightarrow>
     \<not> afterIdent l \<and> \<not> afterRightParen l \<and> \<not> afterRightBracket l \<and>
     (afterOperator l \<or> afterKeyword l \<or> startOfLine l \<or> sawNewline l)"

text \<open>The string mode that \<^verbatim>\<open>lexRegexp\<close> pushes.\<close>

definition regexpState :: stringState where
  "regexpState =
     \<lparr>mode = modeRegexp, terminator = CHR ''/'', openDelimiter = NUL, nestingLevel = 1,
      interpolating = True, heredocIdent = [], heredocIndented = False,
      heredocSquiggle = False, heredocQuoted = False, savedBraceDepth = 0\<rparr>"




text \<open>
  Two lexers that differ in the read cursor only: the fields that \<^verbatim>\<open>readChar\<close> writes.
\<close>

definition sameContext :: "Lexer \<Rightarrow> Lexer \<Rightarrow> bool" where
  "sameContext l l' \<longleftrightarrow>
     l' = l\<lparr>prevColumn := prevColumn l', ch := ch l', position := position l',
            readPosition := readPosition l', line := line l', column := column l'\<rparr>"


section \<open>Facts about the lexer\<close>

subsection \<open>Reading bytes changes the cursor only\<close>

lemma sameContext_refl: "sameContext l l"
  by (simp add: sameContext_def)

lemma sameContext_readChar: "sameContext l (readChar l)"
  by (simp add: sameContext_def readChar_def Let_def)

lemma sameContext_trans: "sameContext a b \<Longrightarrow> sameContext b c \<Longrightarrow> sameContext a c"
proof -
  assume ab: "sameContext a b" and bc: "sameContext b c"
  have "c = b\<lparr>prevColumn := prevColumn c, ch := ch c, position := position c,
            readPosition := readPosition c, line := line c, column := column c\<rparr>"
    using bc by (simp add: sameContext_def)
  also have "b = a\<lparr>prevColumn := prevColumn b, ch := ch b, position := position b,
            readPosition := readPosition b, line := line b, column := column b\<rparr>"
    using ab by (simp add: sameContext_def)
  finally show ?thesis by (simp add: sameContext_def)
qed

lemma sameContext_readWhile: "sameContext l (readWhile cond l)"
proof (induction cond l rule: readWhile.induct)
  case (1 cond l)
  show ?case
  proof (cases "cond (ch l) \<and> ch l \<noteq> NUL")
    case True
    then have "readWhile cond l = readWhile cond (readChar l)"
      by (subst readWhile.simps) simp
    moreover have "sameContext (readChar l) (readWhile cond (readChar l))"
      using 1 True by blast
    ultimately show ?thesis
      using sameContext_trans [OF sameContext_readChar] by simp
  next
    case False
    then have "readWhile cond l = l"
      by (subst readWhile.simps) auto
    then show ?thesis by (simp add: sameContext_refl)
  qed
qed

lemma sameContext_fields:
  assumes "sameContext l l'"
  shows "input l' = input l" "stringStack l' = stringStack l" "currentState l' = currentState l"
    "braceDepth l' = braceDepth l" "afterOperator l' = afterOperator l"
    "afterKeyword l' = afterKeyword l" "afterIdent l' = afterIdent l"
    "afterRightParen l' = afterRightParen l" "afterRightBracket l' = afterRightBracket l"
    "inLabelContext l' = inLabelContext l" "sawNewline l' = sawNewline l"
    "startOfLine l' = startOfLine l" "afterDot l' = afterDot l"
    "heredocQueue l' = heredocQueue l"
proof -
  have e: "l' = l\<lparr>prevColumn := prevColumn l', ch := ch l', position := position l',
            readPosition := readPosition l', line := line l', column := column l'\<rparr>"
    using assms by (simp add: sameContext_def)
  show "input l' = input l" by (subst e) simp
  show "stringStack l' = stringStack l" by (subst e) simp
  show "currentState l' = currentState l" by (subst e) simp
  show "braceDepth l' = braceDepth l" by (subst e) simp
  show "afterOperator l' = afterOperator l" by (subst e) simp
  show "afterKeyword l' = afterKeyword l" by (subst e) simp
  show "afterIdent l' = afterIdent l" by (subst e) simp
  show "afterRightParen l' = afterRightParen l" by (subst e) simp
  show "afterRightBracket l' = afterRightBracket l" by (subst e) simp
  show "inLabelContext l' = inLabelContext l" by (subst e) simp
  show "sawNewline l' = sawNewline l" by (subst e) simp
  show "startOfLine l' = startOfLine l" by (subst e) simp
  show "afterDot l' = afterDot l" by (subst e) simp
  show "heredocQueue l' = heredocQueue l" by (subst e) simp
qed

lemma dispatch_slash:
  assumes "ch l = CHR ''/''"
  shows "dispatch l =
     (if peekChar l = CHR ''=''
      then finishToken l (newToken SLASH_EQUAL ''/='') (readChar ((readChar l)\<lparr>afterOperator := True\<rparr>))
      else if shouldLexRegexp l then finishWith l (Some (lexRegexp l))
      else finishToken l (newToken SLASH ''/'') (readChar (l\<lparr>afterOperator := False\<rparr>)))"
  using assms by (simp add: dispatch_def Let_def)

lemma readWhile_stop: "\<not> (cond (ch l) \<and> ch l \<noteq> NUL) \<Longrightarrow> readWhile cond l = l"
  by (subst readWhile.simps) auto

lemma embdoc_at_end:
  assumes "currentState l = Some i" and "mode (stringStack l ! i) = modeNone"
    and "ch l = NUL" and "position l \<le> length (input l)"
  shows "NextToken l = Some (newToken EMBDOC_LINE [], l)"
proof -
  have "NextToken l = lexStringContent l"
    using assms(1) by (subst NextToken.simps) simp
  also have "\<dots> = lexEmbdocContent l"
    using assms(1,2) by (subst lexStringContent.simps) simp
  also have "\<dots> = Some (newToken EMBDOC_LINE [], l)"
    using assms(3,4) by (simp add: lexEmbdocContent_def Let_def readWhile_stop slice_def)
  finally show ?thesis .
qed

lemma embdoc_stuck:
  assumes "currentState l = Some i" and "mode (stringStack l ! i) = modeNone"
    and "ch l = NUL" and "position l \<le> length (input l)"
  shows "nextTokens n l = Some (replicate n (newToken EMBDOC_LINE []), l)"
  by (induction n) (simp_all add: embdoc_at_end [OF assms])

lemma begin_first:
  "map_option (\<lambda>(t, l). (Type t, Literal t, currentState l, mode (stringStack l ! 0), ch l,
       position l \<le> length (input l))) (NextToken (New ''=begin'')) =
     Some (EMBDOC_BEGIN, ''=begin'', Some 0, modeNone, NUL, True)"
  by code_simp

subsection \<open>Identifiers\<close>











section \<open>The heredoc scenario\<close>

text \<open>
  Claim C4. Lexing \<^verbatim>\<open><<EOF\nhello\nworld\nEOF\ndone\<close> yields exactly the tokens
  \<^verbatim>\<open>HEREDOC_BEGIN "<<EOF"\<close>, \<^verbatim>\<open>STRING_CONTENT "hello\nworld\n"\<close>, \<^verbatim>\<open>HEREDOC_END "EOF"\<close>,
  \<^verbatim>\<open>NEWLINE\<close>, \<^verbatim>\<open>IDENT "done"\<close>, \<^verbatim>\<open>EOF\<close>: six calls of \<^verbatim>\<open>NextToken\<close> return them in
  this order, and the sixth is the first \<^verbatim>\<open>EOF\<close>.
\<close>

theorem heredoc_scenario_tokens:
  "kindsAndLiterals (nextTokens 6 (New ''<<EOF\<newline>hello\<newline>world\<newline>EOF\<newline>done'')) =
     Some [(HEREDOC_BEGIN, ''<<EOF''),
           (STRING_CONTENT, ''hello\<newline>world\<newline>''),
           (HEREDOC_END, ''EOF''),
           (NEWLINE, ''\<newline>''),
           (IDENT, ''done''),
           (EOF, '''')]"
  by code_simp

section \<open>The regex start predicate\<close>

text \<open>
  Claim C1, amended. A \<^verbatim>\<open>/\<close> met in normal token dispatch (no string mode is current, no
  heredoc body is due, and \<^verbatim>\<open>/\<close> is the byte after the horizontal whitespace) that is
  not followed by \<^verbatim>\<open>=\<close> begins a regex, that is \<^verbatim>\<open>NextToken\<close> returns \<^verbatim>\<open>REGEXP_BEGIN\<close> and
  pushes the regex string mode, if and only if the flags satisfy the predicate of the
  specification; otherwise the token is \<^verbatim>\<open>SLASH\<close> and nothing is pushed. A \<^verbatim>\<open>/\<close> that
  is followed by \<^verbatim>\<open>=\<close> always gives \<^verbatim>\<open>SLASH_EQUAL\<close>, whatever the flags are. This holds
  for every lexer state, reachable or not.
\<close>

theorem slash_regexp_iff:
  assumes "currentState l = None"
    and "\<not> (length (heredocQueue l) > 0 \<and> sawNewline l)"
    and "ch (skipWhitespace l) = CHR ''/''"
  shows "\<exists>tok l'. NextToken l = Some (tok, l') \<and>
           (if peekChar (skipWhitespace l) = CHR ''=''
            then Type tok = SLASH_EQUAL \<and> stringStack l' = stringStack l \<and> currentState l' = None
            else if regexpStart_spec l
            then Type tok = REGEXP_BEGIN \<and> stringStack l' = stringStack l @ [regexpState] \<and>
                 currentState l' = Some (length (stringStack l))
            else Type tok = SLASH \<and> stringStack l' = stringStack l \<and> currentState l' = None)"
proof -
  let ?l1 = "skipWhitespace l"
  have sc: "sameContext l ?l1"
    by (simp add: skipWhitespace_def sameContext_readWhile)
  note f = sameContext_fields [OF sc]
  have nt: "NextToken l = dispatch ?l1"
    using assms by (subst NextToken.simps) (auto simp: Let_def)
  have r: "shouldLexRegexp ?l1 = regexpStart_spec l"
    by (auto simp: shouldLexRegexp_def regexpStart_spec_def f)
  show ?thesis
    unfolding nt dispatch_slash [OF assms(3)] r
    using assms(1)
    by (simp add: finishToken_def finishWith_def returnToken_def lexRegexp_def pushStringState_def
        readChar_def Let_def newToken_def setTokenPosition_def regexpState_def f tok_defs)
qed

theorem slash_regexp_iff_witness:
  "currentState (New ''/a/'') = None \<and>
   ch (skipWhitespace (New ''/a/'')) = CHR ''/'' \<and>
   regexpStart_spec (New ''/a/'') \<and>
   map_option (\<lambda>(tok, l'). (Type tok, stringStack l', currentState l')) (NextToken (New ''/a/'')) =
     Some (REGEXP_BEGIN, [regexpState], Some 0)"
proof -
  have h1: "currentState (New ''/a/'') = None" by code_simp
  have h2: "\<not> (length (heredocQueue (New ''/a/'')) > 0 \<and> sawNewline (New ''/a/''))" by code_simp
  have h3: "ch (skipWhitespace (New ''/a/'')) = CHR ''/''" by code_simp
  have h4: "peekChar (skipWhitespace (New ''/a/'')) \<noteq> CHR ''=''" by code_simp
  have h5: "regexpStart_spec (New ''/a/'')" by code_simp
  have h6: "stringStack (New ''/a/'') = []" by code_simp
  from slash_regexp_iff [OF h1 h2 h3] h4 h5 h6
  obtain tok l' where "NextToken (New ''/a/'') = Some (tok, l')"
    and "Type tok = REGEXP_BEGIN" and "stringStack l' = [regexpState]" and "currentState l' = Some 0"
    by auto
  then show ?thesis using h1 h3 h5 by simp
qed

text \<open>
  The claim as stated fails at the input \<^verbatim>\<open>/=\<close>: the lexer is at the start of a line with
  none of the three excluding flags set, so the predicate of the specification holds, and
  the token is \<^verbatim>\<open>SLASH_EQUAL\<close>, not \<^verbatim>\<open>REGEXP_BEGIN\<close>.
\<close>

theorem slash_equal_counterexample:
  "regexpStart_spec (New ''/='') \<and>
   currentState (New ''/='') = None \<and>
   ch (skipWhitespace (New ''/='')) = CHR ''/'' \<and>
   kindsAndLiterals (nextTokens 1 (New ''/='')) = Some [(SLASH_EQUAL, ''/='')] \<and>
   SLASH_EQUAL \<noteq> REGEXP_BEGIN"
  by code_simp

section \<open>Progress and positions\<close>

text \<open>
  Claim C2 fails on the code at the input \<^verbatim>\<open>=begin\<close>, embedded documentation that is never
  closed. The first call of \<^verbatim>\<open>NextToken\<close> returns \<^verbatim>\<open>EMBDOC_BEGIN\<close>; every later call returns
  an empty \<^verbatim>\<open>EMBDOC_LINE\<close> and leaves the lexer as it was, so no number of calls reaches
  \<^verbatim>\<open>EOF\<close>, and the same token comes back at the same place again and again.
\<close>

theorem unterminated_embdoc_never_EOF:
  "kindsAndLiterals (nextTokens (Suc n) (New ''=begin'')) =
     Some ((EMBDOC_BEGIN, ''=begin'') # replicate n (EMBDOC_LINE, ''''))"
proof -
  from begin_first obtain t l where
    first: "NextToken (New ''=begin'') = Some (t, l)"
    and tok: "Type t = EMBDOC_BEGIN" "Literal t = ''=begin''"
    and st: "currentState l = Some 0" "mode (stringStack l ! 0) = modeNone" "ch l = NUL"
      "position l \<le> length (input l)"
    by (cases "NextToken (New ''=begin'')") auto
  have "nextTokens n l = Some (replicate n (newToken EMBDOC_LINE []), l)"
    by (rule embdoc_stuck [OF st])
  then show ?thesis
    using first tok by (simp add: kindsAndLiterals_def newToken_def)
qed

text \<open>
  Claim C3 fails on the code at the input of two single quotes, the empty string literal.
  \<^verbatim>\<open>STRING_BEGIN\<close> is at line 1, column 1, offset 0; the \<^verbatim>\<open>STRING_END\<close> after it comes from
  \<^verbatim>\<open>lexStringContent\<close>, which does not call \<^verbatim>\<open>setTokenPosition\<close> for it: its line, column
  and offset are 0.
\<close>

theorem string_end_without_position:
  "positions (nextTokens 2 (New [SQUOTE, SQUOTE])) =
     Some [(STRING_BEGIN, 1, 1, 0), (STRING_END, 0, 0, 0)]"
  by code_simp

section \<open>Identifier classification\<close>




end
